theory Spec2Isabelle
  imports Main
begin

section \<open>Errors, log lines and observable events\<close>

text \<open>
  The Go code builds its errors with \<^verbatim>\<open>WrappedErrorf(format, args...)\<close> and
  \<^verbatim>\<open>WrapErrorf(cause, format, args...)\<close>.  An error is modelled by the format string and
  the arguments of the call that built it, so that "the error names the filter id and
  the index" is a statement about the arguments.  Errors that come from outside the
  modelled code (the operating system, a filter, the network, the session lock) are
  \<open>OSError\<close> and \<open>ExternalError\<close>.
\<close>

datatype fmt_arg = AStr string | ANat nat | ADuration

datatype os_error = ErrNotExist | ErrPermission | ErrOther string

datatype error =
    OSError os_error
  | ExternalError string
  | WrappedErrorf string "fmt_arg list"
  | WrapErrorf error string "fmt_arg list"

definition WrappedError :: "string \<Rightarrow> error" where
  "WrappedError msg = WrappedErrorf msg []"

definition WrapError :: "error \<Rightarrow> string \<Rightarrow> error" where
  "WrapError err msg = WrapErrorf err msg []"

text \<open>\<^verbatim>\<open>os.IsNotExist(err)\<close>.\<close>

definition IsNotExist :: "os_error \<Rightarrow> bool" where
  "IsNotExist err = (err = ErrNotExist)"

datatype log_level = LDebug | LInfo | LWarn | LError

text \<open>
  Everything the pipeline does to the outside world is recorded, in order, in a trace:
  log lines, system calls (also the failing ones), and the calls of the filters'
  \<^verbatim>\<open>Check\<close> and \<^verbatim>\<open>Run\<close> methods and of \<^verbatim>\<open>ExportProject\<close>.
\<close>

datatype event =
    Log log_level string "fmt_arg list"
  | SysRemoveAll string
  | SysMkdirAll string
  | SysStat string
  | SysCopy string string
  | CallCheck string
  | CallRun string
  | CallExportProject

section \<open>The file system as the staging code sees it\<close>

text \<open>
  The workspace maps a path to what the code has put there.  Only the paths the code
  names are tracked (a \<^verbatim>\<open>MkdirAll\<close> is not followed up to the parents it creates, and
  the content of a copied directory is the name of its source).  The results of the
  system calls are given by the environment: \<open>Stat\<close> is what \<^verbatim>\<open>os.Stat\<close> returns for a
  source path, the \<open>_err\<close> fields say which calls fail.
\<close>

datatype node = EmptyDir | CopyOf string

type_synonym workspace = "string \<Rightarrow> node option"

record file_info =
  IsDir :: bool

record os_env =
  Stat :: "string \<Rightarrow> os_error + file_info"
  RemoveAll_err :: "string \<Rightarrow> os_error option"
  MkdirAll_err :: "string \<Rightarrow> os_error option"
  Copy_err :: "string \<Rightarrow> string \<Rightarrow> os_error option"

record world =
  workspace :: workspace
  trace :: "event list"

definition emit :: "event \<Rightarrow> world \<Rightarrow> world" where
  "emit e w = w\<lparr>trace := trace w @ [e]\<rparr>"

definition Logger :: "log_level \<Rightarrow> string \<Rightarrow> fmt_arg list \<Rightarrow> world \<Rightarrow> world" where
  "Logger lvl msg args w = emit (Log lvl msg args) w"

definition is_under :: "string \<Rightarrow> string \<Rightarrow> bool" where
  "is_under p q = (take (Suc (length p)) q = p @ ''/'')"

definition remove_tree :: "string \<Rightarrow> workspace \<Rightarrow> workspace" where
  "remove_tree p ws = (\<lambda>q. if q = p \<or> is_under p q then None else ws q)"

definition os_RemoveAll :: "'a os_env_scheme \<Rightarrow> string \<Rightarrow> world \<Rightarrow> os_error option \<times> world" where
  "os_RemoveAll env p w =
     (let w1 = emit (SysRemoveAll p) w in
      case RemoveAll_err env p of
        Some err \<Rightarrow> (Some err, w1)
      | None \<Rightarrow> (None, w1\<lparr>workspace := remove_tree p (workspace w1)\<rparr>))"

definition os_MkdirAll :: "'a os_env_scheme \<Rightarrow> string \<Rightarrow> world \<Rightarrow> os_error option \<times> world" where
  "os_MkdirAll env p w =
     (let w1 = emit (SysMkdirAll p) w in
      case MkdirAll_err env p of
        Some err \<Rightarrow> (Some err, w1)
      | None \<Rightarrow>
          (None, case workspace w1 p of
                   None \<Rightarrow> w1\<lparr>workspace := (workspace w1)(p \<mapsto> EmptyDir)\<rparr>
                 | Some _ \<Rightarrow> w1))"

definition os_Stat :: "'a os_env_scheme \<Rightarrow> string \<Rightarrow> world \<Rightarrow> (os_error + file_info) \<times> world" where
  "os_Stat env p w = (Stat env p, emit (SysStat p) w)"

definition copy_Copy :: "'a os_env_scheme \<Rightarrow> string \<Rightarrow> string \<Rightarrow> world \<Rightarrow> os_error option \<times> world" where
  "copy_Copy env src dst w =
     (let w1 = emit (SysCopy src dst) w in
      case Copy_err env src dst of
        Some err \<Rightarrow> (Some err, w1)
      | None \<Rightarrow> (None, w1\<lparr>workspace := (workspace w1)(dst \<mapsto> CopyOf src)\<rparr>))"

section \<open>The configuration model\<close>

text \<open>
  A filter runner is an interface value; the filters themselves are opaque programs.
  The record holds what its methods return in the invocation under study: \<open>GetId\<close>,
  \<open>IsDisabled\<close>, the error (or \<open>None\<close> for \<^verbatim>\<open>nil\<close>) of \<open>Check\<close> and of \<open>Run\<close>, and what
  \<open>Run\<close> does to the workspace.  \<open>IsRemoteFilter\<close> is the outcome of the type assertion
  \<^verbatim>\<open>filterRunner.(*RemoteFilter)\<close>; \<open>Arguments\<close> are the bound arguments.
\<close>

record filter_runner =
  GetId :: string
  IsDisabled :: bool
  IsRemoteFilter :: bool
  Arguments :: "string list"
  Check :: "error option"
  Run :: "error option"
  RunEffect :: "workspace \<Rightarrow> workspace"

record export_target =
  Target :: string
  ReadOnly :: bool

text \<open>\<^verbatim>\<open>Profile\<close> embeds \<^verbatim>\<open>FilterCollection\<close>.\<close>

record filter_collection =
  Filters :: "filter_runner list"

record profile = filter_collection +
  ExportTarget :: export_target

text \<open>The zero value of \<^verbatim>\<open>Profile\<close>: what a Go map lookup yields for a missing key.\<close>

definition zero_Profile :: profile where
  "zero_Profile = \<lparr>Filters = [], ExportTarget = \<lparr>Target = [], ReadOnly = False\<rparr>\<rparr>"

text \<open>
  JSON values as \<^verbatim>\<open>encoding/json\<close> decodes them into \<^verbatim>\<open>interface{}\<close>; an object is a list
  of key-value pairs with distinct keys, read with \<open>map_of\<close>; a number is kept as its
  literal.
\<close>

datatype json =
    JNull
  | JBool bool
  | JNumber string
  | JString string
  | JArray "json list"
  | JObject "(string \<times> json) list"

text \<open>
  An entry of the filter definitions: either what the configuration file already held,
  or the definition of a remote filter that \<^verbatim>\<open>Install\<close> has put there.
\<close>

record remote_filter_definition =
  Url :: string
  Version :: string

datatype definition_value = ExistingEntry json | InstalledEntry remote_filter_definition

record config =
  Name :: string
  ResourceFolder :: string
  BehaviorFolder :: string
  DataPath :: string
  FilterDefinitions :: "string \<Rightarrow> definition_value option"
  Profiles :: "string \<Rightarrow> profile option"

text \<open>
  The environment of one pipeline invocation: the system calls, the results of
  \<^verbatim>\<open>LoadConfigAsMap\<close> and \<^verbatim>\<open>ConfigFromObject\<close>, and of \<^verbatim>\<open>ExportProject\<close> (none of the
  three is in the sources at hand; each is taken as it returns).
\<close>

record run_env = os_env +
  LoadConfigAsMap_err :: "error option"
  ConfigFromObject_result :: "error + config"
  ExportProject_err :: "error option"
  ExportProject_effect :: "workspace \<Rightarrow> workspace"

section \<open>Staging: \<^verbatim>\<open>SetupTmpFiles\<close>\<close>

definition tmp_path :: "string \<Rightarrow> string" where
  "tmp_path short_name = ''.regolith/tmp/'' @ short_name"

definition setup_tmp_directory ::
  "'a os_env_scheme \<Rightarrow> string \<Rightarrow> string \<Rightarrow> string \<Rightarrow> world \<Rightarrow> error option \<times> world" where
  "setup_tmp_directory env path short_name descriptive_name w =
     (if path \<noteq> [] then
        (case os_Stat env path w of
           (Inl err, w1) \<Rightarrow>
             if IsNotExist err then
               (let w2 = Logger LWarn ''%s %q does not exist''
                           [AStr descriptive_name, AStr path] w1 in
                case os_MkdirAll env (tmp_path short_name) w2 of
                  (Some err2, w3) \<Rightarrow>
                    (Some (WrapErrorf (OSError err2)
                       ''Failed to create \".regolith/tmp/%s\" directory.'' [AStr short_name]), w3)
                | (None, w3) \<Rightarrow> (None, w3))
             else (None, w1)
         | (Inr stats, w1) \<Rightarrow>
             if IsDir stats then
               (case copy_Copy env path (tmp_path short_name) w1 of
                  (Some err2, w2) \<Rightarrow>
                    (Some (WrapErrorf (OSError err2)
                       ''Failed to copy %s %q to \".regolith/tmp/%s\".''
                       [AStr descriptive_name, AStr path, AStr short_name]), w2)
                | (None, w2) \<Rightarrow> (None, w2))
             else
               (Some (WrappedErrorf ''%s path %q is not a directory''
                  [AStr descriptive_name, AStr path]), w1))
      else
        (case os_MkdirAll env (tmp_path short_name) w of
           (Some err, w1) \<Rightarrow>
             (Some (WrapErrorf (OSError err)
                ''Failed to create \".regolith/tmp/%s\" directory.'' [AStr short_name]), w1)
         | (None, w1) \<Rightarrow> (None, w1)))"

definition SetupTmpFiles :: "'a os_env_scheme \<Rightarrow> config \<Rightarrow> world \<Rightarrow> error option \<times> world" where
  "SetupTmpFiles env cfg w0 =
     (case os_RemoveAll env ''.regolith/tmp'' (Logger LDebug ''Cleaning .regolith/tmp'' [] w0) of
        (Some err, w1) \<Rightarrow>
          (Some (WrapError (OSError err)
             ''Unable to clean temporary directory: \".regolith/tmp\".''), w1)
      | (None, w1) \<Rightarrow>
     (case os_MkdirAll env ''.regolith/tmp'' w1 of
        (Some err, w2) \<Rightarrow>
          (Some (WrapError (OSError err)
             ''Unable to prepare temporary directory: \"./regolith/tmp\".''), w2)
      | (None, w2) \<Rightarrow>
     (case setup_tmp_directory env (ResourceFolder cfg) ''RP'' ''resource folder''
             (Logger LDebug ''Copying project files to .regolith/tmp'' [] w2) of
        (Some err, w3) \<Rightarrow>
          (Some (WrapErrorf err
             ''Failed to setup resource folder in the temporary directory.'' []), w3)
      | (None, w3) \<Rightarrow>
     (case setup_tmp_directory env (BehaviorFolder cfg) ''BP'' ''behavior folder'' w3 of
        (Some err, w4) \<Rightarrow>
          (Some (WrapErrorf err
             ''Failed to setup behavior folder in the temporary directory.'' []), w4)
      | (None, w4) \<Rightarrow>
     (case setup_tmp_directory env (DataPath cfg) ''data'' ''data folder'' w4 of
        (Some err, w5) \<Rightarrow>
          (Some (WrapErrorf err
             ''Failed to setup data folder in the temporary directory.'' []), w5)
      | (None, w5) \<Rightarrow>
          (None, Logger LDebug ''Setup done in '' [ADuration] w5))))))"

section \<open>The Check and Run loops\<close>

fun CheckProfileImpl :: "filter_runner list \<Rightarrow> world \<Rightarrow> error option \<times> world" where
  "CheckProfileImpl [] w = (None, w)"
| "CheckProfileImpl (f # fs) w =
     (let w1 = emit (CallCheck (GetId f)) w in
      case Check f of
        Some err \<Rightarrow> (Some (WrapErrorf err ''Filter check failed.'' []), w1)
      | None \<Rightarrow> CheckProfileImpl fs w1)"

fun RunProfileImpl :: "filter_runner list \<Rightarrow> world \<Rightarrow> error option \<times> world" where
  "RunProfileImpl [] w = (None, w)"
| "RunProfileImpl (f # fs) w =
     (if IsDisabled f then
        RunProfileImpl fs
          (Logger LInfo ''Filter \"%s\" is disabled, skipping.'' [AStr (GetId f)] w)
      else
        (let w1 = (if GetId f \<noteq> [] then Logger LInfo ''Running filter %s'' [AStr (GetId f)] w
                   else w);
             w2 = emit (CallRun (GetId f)) w1;
             w3 = w2\<lparr>workspace := RunEffect f (workspace w2)\<rparr>;
             w4 = Logger LDebug ''Executed in %s'' [ADuration] w3 in
         case Run f of
           Some err \<Rightarrow> (Some (WrapError err ''Failed to run filter.''), w4)
         | None \<Rightarrow> RunProfileImpl fs w4))"

section \<open>The pipeline: \<^verbatim>\<open>RunProfile\<close>\<close>

definition ExportProject :: "run_env \<Rightarrow> world \<Rightarrow> error option \<times> world" where
  "ExportProject env w =
     (let w1 = emit CallExportProject w in
      (ExportProject_err env, w1\<lparr>workspace := ExportProject_effect env (workspace w1)\<rparr>))"

definition lookup_Profile :: "config \<Rightarrow> string \<Rightarrow> profile" where
  "lookup_Profile cfg profileName =
     (case Profiles cfg profileName of Some p \<Rightarrow> p | None \<Rightarrow> zero_Profile)"

definition RunProfile :: "run_env \<Rightarrow> string \<Rightarrow> world \<Rightarrow> error option \<times> world" where
  "RunProfile env profileName w0 =
     (case LoadConfigAsMap_err env of
        Some err \<Rightarrow> (Some (WrapError err ''Could not load \"config.json\".''), w0)
      | None \<Rightarrow>
     (case ConfigFromObject_result env of
        Inl err \<Rightarrow> (Some (WrapError err ''Could not load \"config.json\".''), w0)
      | Inr cfg \<Rightarrow>
     (case CheckProfileImpl (Filters (lookup_Profile cfg profileName)) w0 of
        (Some err, w1) \<Rightarrow> (Some err, w1)
      | (None, w1) \<Rightarrow>
     (case SetupTmpFiles env cfg w1 of
        (Some err, w2) \<Rightarrow> (Some (WrapError err ''Unable to setup profile.''), w2)
      | (None, w2) \<Rightarrow>
     (case RunProfileImpl (Filters (lookup_Profile cfg profileName)) w2 of
        (Some err, w3) \<Rightarrow> (Some err, w3)
      | (None, w3) \<Rightarrow>
     (case ExportProject env (Logger LInfo ''Moving files to target directory.'' [] w3) of
        (Some err, w4) \<Rightarrow> (Some (WrapError err ''Exporting project failed.''), w4)
      | (None, w4) \<Rightarrow>
     (case os_RemoveAll env ''.regolith/tmp/data'' (Logger LDebug ''Done in '' [ADuration] w4) of
        (Some err, w5) \<Rightarrow>
          (Some (WrapError (OSError err) ''Unable to clean .regolith/tmp/data directory.''), w5)
      | (None, w5) \<Rightarrow> (None, w5))))))))"

section \<open>Reading a trace\<close>

text \<open>
  The functions of this section are not part of the program: they read the trace of a
  run, so that the properties below can be stated.  \<open>events_since w w'\<close> are the events
  a call added when it took the world from \<open>w\<close> to \<open>w'\<close>.
\<close>

definition events_since :: "world \<Rightarrow> world \<Rightarrow> event list" where
  "events_since w w' = drop (length (trace w)) (trace w')"

text \<open>
  The phase an event belongs to.  \<^verbatim>\<open>RunProfile\<close> removes two directories: the scratch
  workspace when staging starts, and its \<^verbatim>\<open>data\<close> subdirectory after the export; log
  lines belong to no phase.
\<close>

datatype phase = PhaseCheck | PhaseStage | PhaseRun | PhaseExport | PhaseCleanup

fun phase_of :: "event \<Rightarrow> phase option" where
  "phase_of (Log _ _ _) = None"
| "phase_of (SysRemoveAll p) =
     (if p = ''.regolith/tmp/data'' then Some PhaseCleanup else Some PhaseStage)"
| "phase_of (SysMkdirAll _) = Some PhaseStage"
| "phase_of (SysStat _) = Some PhaseStage"
| "phase_of (SysCopy _ _) = Some PhaseStage"
| "phase_of (CallCheck _) = Some PhaseCheck"
| "phase_of (CallRun _) = Some PhaseRun"
| "phase_of CallExportProject = Some PhaseExport"

fun phase_rank :: "phase \<Rightarrow> nat" where
  "phase_rank PhaseCheck = 0"
| "phase_rank PhaseStage = 1"
| "phase_rank PhaseRun = 2"
| "phase_rank PhaseExport = 3"
| "phase_rank PhaseCleanup = 4"

definition phases :: "event list \<Rightarrow> phase list" where
  "phases es = List.map_filter phase_of es"

definition only_phase :: "phase \<Rightarrow> event list \<Rightarrow> bool" where
  "only_phase ph es = list_all (\<lambda>e. phase_of e = None \<or> phase_of e = Some ph) es"

definition steps :: "phase \<Rightarrow> world \<Rightarrow> world \<Rightarrow> bool" where
  "steps ph w w' \<longleftrightarrow> (\<exists>es. trace w' = trace w @ es \<and> only_phase ph es)"

text \<open>The ids of the runners whose \<^verbatim>\<open>Check\<close> (\<^verbatim>\<open>Run\<close>) was called, in call order.\<close>

fun check_ids :: "event list \<Rightarrow> string list" where
  "check_ids [] = []"
| "check_ids (CallCheck i # es) = i # check_ids es"
| "check_ids (_ # es) = check_ids es"

fun run_ids :: "event list \<Rightarrow> string list" where
  "run_ids [] = []"
| "run_ids (CallRun i # es) = i # run_ids es"
| "run_ids (_ # es) = run_ids es"

text \<open>
  The runners a fail-fast loop reaches: \<open>checked\<close> is the collection up to and including
  the first runner whose \<open>Check\<close> fails (the disabled flag is not looked at);
  \<open>attempted\<close> are the runners that are not disabled, up to and including the first
  whose \<open>Run\<close> fails.
\<close>

fun checked :: "filter_runner list \<Rightarrow> filter_runner list" where
  "checked [] = []"
| "checked (f # fs) = (if Check f \<noteq> None then [f] else f # checked fs)"

fun attempted :: "filter_runner list \<Rightarrow> filter_runner list" where
  "attempted [] = []"
| "attempted (f # fs) =
     (if IsDisabled f then attempted fs
      else if Run f \<noteq> None then [f] else f # attempted fs)"

text \<open>The three calls of the closure in \<^verbatim>\<open>SetupTmpFiles\<close>: path, short name, descriptive name.\<close>

definition roles :: "config \<Rightarrow> (string \<times> string \<times> string) list" where
  "roles cfg = [(ResourceFolder cfg, ''RP'', ''resource folder''),
                (BehaviorFolder cfg, ''BP'', ''behavior folder''),
                (DataPath cfg, ''data'', ''data folder'')]"

text \<open>What \<^verbatim>\<open>RunProfile\<close> emits for the export, and for the cleanup after it.\<close>

definition export_events :: "event list" where
  "export_events = [Log LInfo ''Moving files to target directory.'' [], CallExportProject]"

definition cleanup_events :: "event list" where
  "cleanup_events = [Log LDebug ''Done in '' [ADuration], SysRemoveAll ''.regolith/tmp/data'']"

section \<open>Sub-filters of a remote filter: \<^verbatim>\<open>SubfilterCollection\<close>\<close>













section \<open>The commands of \<^verbatim>\<open>main_functions.go\<close>\<close>

subsection \<open>State, events and Go's \<^verbatim>\<open>return\<close> and \<^verbatim>\<open>defer\<close>\<close>

datatype cmd_arg = CStr string | CNat nat | CErr error

datatype cmd_event =
    InitLogging bool
  | CmdLog log_level string "cmd_arg list"
  | CallAquireSessionLock string
  | CallUnlockSession
  | CallFilterDefinitionFromTheInternet string string string
  | CallInstallFilters bool
  | CallUpdateFilters
  | CallWriteFile string
  | CallCreateDirectoryIfNotExists string
  | CallCheckProfileImpl string
  | CallRunProfile
  | CallStartWatchingSourceFiles
  | CallAwaitInterruption
  | CallCreateFilterRunner string
  | CallFilterCheck
  | CallSetupTmpFiles
  | CallFilterRun
  | CallInplaceExportProject

text \<open>
  The configuration file as \<^verbatim>\<open>Install\<close> handles it, a decoded JSON object: its data path
  and its filter definitions (\<open>None\<close> when the property is missing or has the wrong
  type), and the rest of the file.
\<close>

record config_map =
  DataPathProperty :: "string option"
  FilterDefinitionsProperty :: "(string \<Rightarrow> definition_value option) option"
  OtherProperties :: json

text \<open>
  How a command ends: a Go function returns the value its \<^verbatim>\<open>return\<close> statement
  evaluated; the watch loop never returns, so a run of it is cut off after a number
  of iterations (\<open>StillWatching\<close>) or ended by a termination signal (\<open>ProcessExited\<close>).
\<close>

datatype outcome = Pending | Returned "error option" | ProcessExited | StillWatching

text \<open>
  \<open>sessionLockErr\<close> is the local variable of that name; \<open>config_json\<close> is the content of
  the configuration file.
\<close>

record cmd_state =
  sessionLockErr :: "error option"
  outcome :: outcome
  cmd_trace :: "cmd_event list"
  config_json :: config_map

definition record_event :: "cmd_event \<Rightarrow> cmd_state \<Rightarrow> cmd_state" where
  "record_event e s = s\<lparr>cmd_trace := cmd_trace s @ [e]\<rparr>"

definition cmd_log :: "log_level \<Rightarrow> string \<Rightarrow> cmd_arg list \<Rightarrow> cmd_state \<Rightarrow> cmd_state" where
  "cmd_log lvl msg args s = record_event (CmdLog lvl msg args) s"

text \<open>
  \<^verbatim>\<open>return v\<close> in a function whose result has no name: the operand is evaluated and
  becomes the result, then the deferred calls run.
\<close>

definition go_return :: "error option \<Rightarrow> cmd_state \<Rightarrow> cmd_state" where
  "go_return v s = s\<lparr>outcome := Returned v\<rparr>"

datatype interruption = FileChange | TerminationSignal

text \<open>
  What the commands call and do not define, each as it returns; the message constants
  that are declared elsewhere; the result of the \<open>k\<close>-th call of \<^verbatim>\<open>RunProfile\<close> and of
  \<^verbatim>\<open>AwaitInterruption\<close> in the watch loop.
\<close>

record parsed_arg =
  url :: string
  name :: string
  version :: string

record cmd_env =
  gitNotInstalledWarning :: string
  aquireSessionLockError :: string
  osMkdirError :: string
  createFilterRunnerError :: string
  filterRunnerCheckError :: string
  setupTmpFilesError :: string
  filterRunnerRunError :: string
  ConfigFilePath :: string
  hasGit :: bool
  parseInstallFilterArgs :: "string list \<Rightarrow> error + parsed_arg list"
  LoadConfigAsMap_error :: "error option"
  ConfigFromObject :: "config_map option \<Rightarrow> error + config"
  GetDotRegolith :: "error + string"
  CreateDirectoryIfNotExists :: "string \<Rightarrow> error option"
  aquireSessionLock :: "string \<Rightarrow> error option"
  unlockSession :: "error option"
  FilterDefinitionFromTheInternet :: "string \<Rightarrow> string \<Rightarrow> string \<Rightarrow> error + remote_filter_definition"
  installFilters :: "(string \<Rightarrow> definition_value option) \<Rightarrow> bool \<Rightarrow> string \<Rightarrow> string \<Rightarrow> error option"
  updateFilters :: "(string \<Rightarrow> definition_value option) \<Rightarrow> string \<Rightarrow> error option"
  WriteFile :: "string \<Rightarrow> error option"
  CheckProfileImpl_result :: "profile \<Rightarrow> string \<Rightarrow> error option"
  RunProfile_result :: "nat \<Rightarrow> error option"
  AwaitInterruption_result :: "nat \<Rightarrow> interruption"
  CreateFilterRunner_result :: "definition_value \<Rightarrow> string \<Rightarrow> string list \<Rightarrow> error + filter_runner"
  SetupTmpFiles_result :: "error option"
  InplaceExportProject_result :: "error option"

text \<open>
  The deferred closure \<^verbatim>\<open>func() { sessionLockErr = unlockSession() }\<close>.  It runs when the
  function returns, after the \<^verbatim>\<open>return\<close> statement has fixed the result, and assigns
  the local variable.
\<close>

definition deferred_unlock :: "cmd_env \<Rightarrow> cmd_state \<Rightarrow> cmd_state" where
  "deferred_unlock env s =
     (case outcome s of
        Returned _ \<Rightarrow> (record_event CallUnlockSession s)\<lparr>sessionLockErr := unlockSession env\<rparr>
      | _ \<Rightarrow> s)"

definition LoadConfigAsMap :: "cmd_env \<Rightarrow> cmd_state \<Rightarrow> error + config_map" where
  "LoadConfigAsMap env s =
     (case LoadConfigAsMap_error env of Some err \<Rightarrow> Inl err | None \<Rightarrow> Inr (config_json s))"

text \<open>
  Modelled from the spec: \<^verbatim>\<open>dataPathFromConfigMap\<close>, \<^verbatim>\<open>filterDefinitionsFromConfigMap\<close> and
  \<^verbatim>\<open>firstErr\<close> are not among the sources.  The configuration file holds a "data path"
  and "a map of filter-name \<rightarrow> installer descriptor"; each helper returns its part of the
  loaded map, or an error when the part is missing.  The map returned is the one inside
  the configuration (Go maps are references), so that \<^verbatim>\<open>Install\<close>'s updates of it are
  part of what it writes back ("on success the new/updated installer entry is written
  back into the persisted configuration").  \<^verbatim>\<open>firstErr\<close> is the first error that is not
  \<^verbatim>\<open>nil\<close>.
\<close>

definition dataPathFromConfigMap :: "config_map \<Rightarrow> error + string" where
  "dataPathFromConfigMap config =
     (case DataPathProperty config of
        None \<Rightarrow> Inl (ExternalError ''dataPath'')
      | Some p \<Rightarrow> Inr p)"

definition filterDefinitionsFromConfigMap ::
  "config_map \<Rightarrow> error + (string \<Rightarrow> definition_value option)" where
  "filterDefinitionsFromConfigMap config =
     (case FilterDefinitionsProperty config of
        None \<Rightarrow> Inl (ExternalError ''filterDefinitions'')
      | Some defs \<Rightarrow> Inr defs)"

definition firstErr :: "error option \<Rightarrow> error option \<Rightarrow> error option" where
  "firstErr err1 err2 = (case err1 of Some e \<Rightarrow> Some e | None \<Rightarrow> err2)"

text \<open>The first statements of every installing or updating command.\<close>

definition start_logging :: "cmd_env \<Rightarrow> bool \<Rightarrow> string \<Rightarrow> cmd_state \<Rightarrow> cmd_state" where
  "start_logging env debug msg s =
     (let s1 = cmd_log LInfo msg [] (record_event (InitLogging debug) s) in
      if \<not> hasGit env then cmd_log LWarn (gitNotInstalledWarning env) [] s1 else s1)"

subsection \<open>\<^verbatim>\<open>Install\<close>\<close>

text \<open>
  The loop that looks for a requested filter that is already defined; it returns the
  name the error is about.
\<close>

fun find_installed :: "(string \<Rightarrow> definition_value option) \<Rightarrow> parsed_arg list \<Rightarrow> string option" where
  "find_installed filterDefinitions [] = None"
| "find_installed filterDefinitions (parsedArg # rest) =
     (case filterDefinitions (name parsedArg) of
        Some _ \<Rightarrow> Some (name parsedArg)
      | None \<Rightarrow> find_installed filterDefinitions rest)"

text \<open>The loop that fills \<^verbatim>\<open>filterInstallers\<close>.\<close>

fun download_definitions ::
  "cmd_env \<Rightarrow> parsed_arg list \<Rightarrow> (string \<Rightarrow> definition_value option) \<Rightarrow> cmd_state
     \<Rightarrow> (error + (string \<Rightarrow> definition_value option)) \<times> cmd_state" where
  "download_definitions env [] filterInstallers s = (Inr filterInstallers, s)"
| "download_definitions env (parsedArg # rest) filterInstallers s =
     (case FilterDefinitionFromTheInternet env (url parsedArg) (name parsedArg) (version parsedArg) of
        Inl err \<Rightarrow>
          (Inl (WrapErrorf err
             ''Unable to download the filter definition from the Internet.\<newline>Filter repository Url: %s\<newline>Filter name: %s\<newline>Filter version: %s\<newline>''
             [AStr (url parsedArg), AStr (name parsedArg), AStr (version parsedArg)]),
           record_event (CallFilterDefinitionFromTheInternet
                   (url parsedArg) (name parsedArg) (version parsedArg)) s)
      | Inr remoteFilterDefinition \<Rightarrow>
          download_definitions env rest
            (filterInstallers(name parsedArg \<mapsto> InstalledEntry
               (if version parsedArg = ''HEAD'' \<or> version parsedArg = ''latest''
                then remoteFilterDefinition\<lparr>Version := version parsedArg\<rparr>
                else remoteFilterDefinition)))
            (record_event (CallFilterDefinitionFromTheInternet
                     (url parsedArg) (name parsedArg) (version parsedArg)) s))"

text \<open>The error \<^verbatim>\<open>Install\<close> returns for a filter that is already defined.\<close>

definition already_installed :: "string \<Rightarrow> error" where
  "already_installed n =
     WrappedErrorf
       ''The filter is already on the filter definitions list.\<newline>Filter: %s\<newline>If you want to force the installation of the filter, please add \"--force\" flag to your \"regolith install\" command''
       [AStr n]"

text \<open>\<^verbatim>\<open>Install\<close> from the \<^verbatim>\<open>defer\<close> statement to its last \<^verbatim>\<open>return\<close>.\<close>

definition Install_locked ::
  "cmd_env \<Rightarrow> parsed_arg list \<Rightarrow> config_map \<Rightarrow> string \<Rightarrow> (string \<Rightarrow> definition_value option)
     \<Rightarrow> string \<Rightarrow> bool \<Rightarrow> cmd_state \<Rightarrow> cmd_state" where
  "Install_locked env parsedArgs config dataPath filterDefinitions dotRegolithPath force s =
     (case (if \<not> force then find_installed filterDefinitions parsedArgs else None) of
        Some n \<Rightarrow> go_return (Some (already_installed n)) s
      | None \<Rightarrow>
     (case download_definitions env parsedArgs Map.empty s of
        (Inl err, s1) \<Rightarrow> go_return (Some err) s1
      | (Inr filterInstallers, s1) \<Rightarrow>
     (case installFilters env filterInstallers force dataPath dotRegolithPath of
        Some err \<Rightarrow>
          go_return (Some (WrapError err ''Failed to install filters.''))
            (record_event (CallInstallFilters force) s1)
      | None \<Rightarrow>
     (case WriteFile env (ConfigFilePath env) of
        Some err \<Rightarrow>
          go_return (Some (WrapErrorf err
            ''Successfully downloaded %v filtersbut failed to update the config file.\<newline>Run \"regolith clean\" to fix invalid cache state.''
            [ANat (length parsedArgs)]))
            (record_event (CallWriteFile (ConfigFilePath env)) (record_event (CallInstallFilters force) s1))
      | None \<Rightarrow>
          (let s2 = cmd_log LInfo ''Successfully installed the filters.'' []
                      ((record_event (CallWriteFile (ConfigFilePath env))
                          (record_event (CallInstallFilters force) s1))
                        \<lparr>config_json := config\<lparr>FilterDefinitionsProperty :=
                             Some (filterDefinitions ++ filterInstallers)\<rparr>\<rparr>)
           in go_return (sessionLockErr s2) s2)))))"

definition Install :: "cmd_env \<Rightarrow> string list \<Rightarrow> bool \<Rightarrow> bool \<Rightarrow> cmd_state \<Rightarrow> cmd_state" where
  "Install env filters force debug s0 =
     (case parseInstallFilterArgs env filters of
        Inl err \<Rightarrow>
          go_return (Some (WrapError err ''Failed to parse arguments.''))
            (start_logging env debug ''Installing filters...'' s0)
      | Inr parsedArgs \<Rightarrow>
     (case LoadConfigAsMap env s0 of
        Inl err \<Rightarrow>
          go_return (Some (WrapError err ''Unable to load config file.''))
            (start_logging env debug ''Installing filters...'' s0)
      | Inr config \<Rightarrow>
     (case dataPathFromConfigMap config of
        Inl err \<Rightarrow>
          go_return (Some (WrapError err ''Failed to get data path from config file.''))
            (start_logging env debug ''Installing filters...'' s0)
      | Inr dataPath \<Rightarrow>
     (case filterDefinitionsFromConfigMap config of
        Inl err \<Rightarrow>
          go_return (Some (WrapError err
              ''Failed to get the list of filter definitions from config file.''))
            (start_logging env debug ''Installing filters...'' s0)
      | Inr filterDefinitions \<Rightarrow>
     (case GetDotRegolith env of
        Inl err \<Rightarrow>
          go_return (Some (WrapError err ''Unable to get the path to regolith cache folder.''))
            (start_logging env debug ''Installing filters...'' s0)
      | Inr dotRegolithPath \<Rightarrow>
     (case aquireSessionLock env dotRegolithPath of
        Some err \<Rightarrow>
          go_return (Some (WrapError err (aquireSessionLockError env)))
            (record_event (CallAquireSessionLock dotRegolithPath)
               (start_logging env debug ''Installing filters...'' s0))
      | None \<Rightarrow>
          deferred_unlock env
            (Install_locked env parsedArgs config dataPath filterDefinitions dotRegolithPath force
               ((record_event (CallAquireSessionLock dotRegolithPath)
                   (start_logging env debug ''Installing filters...'' s0))
                 \<lparr>sessionLockErr := None\<rparr>))))))))"

subsection \<open>\<^verbatim>\<open>InstallAll\<close>, \<^verbatim>\<open>Update\<close> and \<^verbatim>\<open>UpdateAll\<close>\<close>

text \<open>
  The three commands load the configuration with \<^verbatim>\<open>firstErr\<close>, find the cache folder
  and take the lock in the same way; \<open>locked_command\<close> is that common frame around the
  part that follows the \<^verbatim>\<open>defer\<close> statement.
\<close>

definition load_config :: "cmd_env \<Rightarrow> cmd_state \<Rightarrow> error + config" where
  "load_config env s =
     (case firstErr (case LoadConfigAsMap env s of Inl e \<Rightarrow> Some e | Inr _ \<Rightarrow> None)
             (case ConfigFromObject env
                     (case LoadConfigAsMap env s of Inl _ \<Rightarrow> None | Inr m \<Rightarrow> Some m) of
                Inl e \<Rightarrow> Some e | Inr _ \<Rightarrow> None) of
        Some err \<Rightarrow> Inl (WrapError err ''Failed to load config.json.'')
      | None \<Rightarrow>
          ConfigFromObject env (case LoadConfigAsMap env s of Inl _ \<Rightarrow> None | Inr m \<Rightarrow> Some m))"

definition locked_command ::
  "cmd_env \<Rightarrow> (config \<Rightarrow> string \<Rightarrow> cmd_state \<Rightarrow> cmd_state) \<Rightarrow> cmd_state \<Rightarrow> cmd_state" where
  "locked_command env body s =
     (case load_config env s of
        Inl err \<Rightarrow> go_return (Some err) s
      | Inr config \<Rightarrow>
     (case GetDotRegolith env of
        Inl err \<Rightarrow>
          go_return (Some (WrapError err ''Unable to get the path to regolith cache folder.'')) s
      | Inr dotRegolithPath \<Rightarrow>
     (case aquireSessionLock env dotRegolithPath of
        Some err \<Rightarrow>
          go_return (Some (WrapError err (aquireSessionLockError env)))
            (record_event (CallAquireSessionLock dotRegolithPath) s)
      | None \<Rightarrow>
          deferred_unlock env
            (body config dotRegolithPath
               ((record_event (CallAquireSessionLock dotRegolithPath) s)\<lparr>sessionLockErr := None\<rparr>)))))"

definition InstallAll :: "cmd_env \<Rightarrow> bool \<Rightarrow> bool \<Rightarrow> cmd_state \<Rightarrow> cmd_state" where
  "InstallAll env force debug s0 =
     locked_command env
       (\<lambda>config dotRegolithPath s.
          case installFilters env (FilterDefinitions config) force (DataPath config) dotRegolithPath of
            Some err \<Rightarrow>
              go_return (Some (WrapError err ''Could not install filters.''))
                (record_event (CallInstallFilters force) s)
          | None \<Rightarrow>
              (let s1 = cmd_log LInfo ''Successfully installed the filters.'' []
                          (record_event (CallInstallFilters force) s)
               in go_return (sessionLockErr s1) s1))
       (start_logging env debug ''Installing filters...'' s0)"

text \<open>The loop of \<^verbatim>\<open>Update\<close> that keeps the filters that are installed.\<close>

fun select_installed ::
  "config \<Rightarrow> string list \<Rightarrow> (string \<Rightarrow> definition_value option) \<Rightarrow> cmd_state
     \<Rightarrow> (string \<Rightarrow> definition_value option) \<times> cmd_state" where
  "select_installed config [] filterInstallers s = (filterInstallers, s)"
| "select_installed config (filterName # rest) filterInstallers s =
     (case FilterDefinitions config filterName of
        None \<Rightarrow>
          select_installed config rest filterInstallers
            (cmd_log LWarn ''Filter %q is not installed and therefore cannot be updated.''
               [CStr filterName] s)
      | Some filterInstaller \<Rightarrow>
          select_installed config rest (filterInstallers(filterName \<mapsto> filterInstaller)) s)"

definition Update :: "cmd_env \<Rightarrow> string list \<Rightarrow> bool \<Rightarrow> cmd_state \<Rightarrow> cmd_state" where
  "Update env filters debug s0 =
     (if length filters = 0 then
        go_return (Some (WrappedError ''No filters specified.''))
          (start_logging env debug ''Updating filters...'' s0)
      else
        locked_command env
          (\<lambda>config dotRegolithPath s.
             case select_installed config filters Map.empty s of
               (filterInstallers, s1) \<Rightarrow>
             (case updateFilters env filterInstallers dotRegolithPath of
                Some err \<Rightarrow>
                  go_return (Some (WrapError err ''Could not update filters.''))
                    (record_event CallUpdateFilters s1)
              | None \<Rightarrow>
                  (let s2 = cmd_log LInfo ''Successfully updated the filters.'' []
                              (record_event CallUpdateFilters s1)
                   in go_return (sessionLockErr s2) s2)))
          (start_logging env debug ''Updating filters...'' s0))"

definition UpdateAll :: "cmd_env \<Rightarrow> bool \<Rightarrow> cmd_state \<Rightarrow> cmd_state" where
  "UpdateAll env debug s0 =
     locked_command env
       (\<lambda>config dotRegolithPath s.
          case updateFilters env (FilterDefinitions config) dotRegolithPath of
            Some err \<Rightarrow>
              go_return (Some (WrapError err ''Could not install filters.''))
                (record_event CallUpdateFilters s)
          | None \<Rightarrow>
              (let s1 = cmd_log LInfo ''Successfully installed the filters.'' []
                          (record_event CallUpdateFilters s)
               in go_return (sessionLockErr s1) s1))
       (start_logging env debug ''Updating filters...'' s0)"

subsection \<open>\<^verbatim>\<open>runOrWatch\<close>\<close>

text \<open>
  The \<^verbatim>\<open>for\<close> loop of the watch branch has no exit.  \<open>watch_loop\<close> runs at most \<open>fuel\<close>
  iterations of it, the next one being the \<open>k\<close>-th; a loop that is cut off is
  \<open>StillWatching\<close>.

  Modelled from the spec: \<^verbatim>\<open>AwaitInterruption\<close> is not among the sources.  The spec:
  "suspend until either (a) a relevant filesystem change event arrives, or (b) an
  external termination signal arrives.  A filesystem change resumes the loop; a
  termination signal ends the process."
\<close>

fun watch_loop :: "cmd_env \<Rightarrow> string \<Rightarrow> nat \<Rightarrow> nat \<Rightarrow> cmd_state \<Rightarrow> cmd_state" where
  "watch_loop env profileName 0 k s = s\<lparr>outcome := StillWatching\<rparr>"
| "watch_loop env profileName (Suc fuel) k s =
     (let s1 = record_event CallRunProfile s;
          s2 = (case RunProfile_result env k of
                  Some err \<Rightarrow>
                    cmd_log LError ''Failed to run profile %q: %s'' [CStr profileName, CErr err] s1
                | None \<Rightarrow>
                    cmd_log LInfo ''Successfully ran the %q profile.'' [CStr profileName] s1);
          s3 = record_event CallAwaitInterruption
                 (cmd_log LInfo ''Press Ctrl+C to stop watching.'' [] s2)
      in case AwaitInterruption_result env k of
           TerminationSignal \<Rightarrow> s3\<lparr>outcome := ProcessExited\<rparr>
         | FileChange \<Rightarrow>
             watch_loop env profileName fuel (Suc k) (cmd_log LWarn ''Restarting...'' [] s3))"

text \<open>\<^verbatim>\<open>runOrWatch\<close> from the \<^verbatim>\<open>defer\<close> statement on.\<close>

definition runOrWatch_locked ::
  "cmd_env \<Rightarrow> nat \<Rightarrow> string \<Rightarrow> profile \<Rightarrow> bool \<Rightarrow> cmd_state \<Rightarrow> cmd_state" where
  "runOrWatch_locked env fuel profileName profile watch s =
     (case CheckProfileImpl_result env profile profileName of
        Some err \<Rightarrow> go_return (Some err) (record_event (CallCheckProfileImpl profileName) s)
      | None \<Rightarrow>
          if watch then
            watch_loop env profileName fuel 0
              (record_event CallStartWatchingSourceFiles (record_event (CallCheckProfileImpl profileName) s))
          else
            (case RunProfile_result env 0 of
               Some err \<Rightarrow>
                 go_return (Some (WrapErrorf err ''Failed to run profile %q'' [AStr profileName]))
                   (record_event CallRunProfile (record_event (CallCheckProfileImpl profileName) s))
             | None \<Rightarrow>
                 (let s1 = cmd_log LInfo ''Successfully ran the %q profile.'' [CStr profileName]
                             (record_event CallRunProfile (record_event (CallCheckProfileImpl profileName) s))
                  in go_return (sessionLockErr s1) s1)))"

definition default_profile :: "string \<Rightarrow> string" where
  "default_profile profileName = (if profileName = [] then ''default'' else profileName)"

definition runOrWatch :: "cmd_env \<Rightarrow> nat \<Rightarrow> string \<Rightarrow> bool \<Rightarrow> bool \<Rightarrow> cmd_state \<Rightarrow> cmd_state" where
  "runOrWatch env fuel profileName debug watch s0 =
     (case LoadConfigAsMap env s0 of
        Inl err \<Rightarrow>
          go_return (Some (WrapError err ''Could not load \"config.json\".''))
            (record_event (InitLogging debug) s0)
      | Inr configJson \<Rightarrow>
     (case ConfigFromObject env (Some configJson) of
        Inl err \<Rightarrow>
          go_return (Some (WrapError err ''Could not load \"config.json\".''))
            (record_event (InitLogging debug) s0)
      | Inr config \<Rightarrow>
     (case Profiles config (default_profile profileName) of
        None \<Rightarrow>
          go_return (Some (WrappedErrorf ''Profile %q does not exist in the configuration.''
                             [AStr (default_profile profileName)]))
            (record_event (InitLogging debug) s0)
      | Some profile \<Rightarrow>
     (case GetDotRegolith env of
        Inl err \<Rightarrow>
          go_return (Some (WrapError err ''Unable to get the path to regolith cache folder.''))
            (record_event (InitLogging debug) s0)
      | Inr dotRegolithPath \<Rightarrow>
     (case CreateDirectoryIfNotExists env dotRegolithPath of
        Some err \<Rightarrow>
          go_return (Some (WrapErrorf err (osMkdirError env) [AStr dotRegolithPath]))
            (record_event (CallCreateDirectoryIfNotExists dotRegolithPath) (record_event (InitLogging debug) s0))
      | None \<Rightarrow>
     (case aquireSessionLock env dotRegolithPath of
        Some err \<Rightarrow>
          go_return (Some (WrapError err (aquireSessionLockError env)))
            (record_event (CallAquireSessionLock dotRegolithPath)
               (record_event (CallCreateDirectoryIfNotExists dotRegolithPath)
                  (record_event (InitLogging debug) s0)))
      | None \<Rightarrow>
          deferred_unlock env
            (runOrWatch_locked env fuel (default_profile profileName) profile watch
               ((record_event (CallAquireSessionLock dotRegolithPath)
                   (record_event (CallCreateDirectoryIfNotExists dotRegolithPath)
                      (record_event (InitLogging debug) s0)))
                 \<lparr>sessionLockErr := None\<rparr>))))))))"

definition Run_command :: "cmd_env \<Rightarrow> string \<Rightarrow> bool \<Rightarrow> cmd_state \<Rightarrow> cmd_state" where
  "Run_command env profileName debug s = runOrWatch env 0 profileName debug False s"

definition Watch :: "cmd_env \<Rightarrow> nat \<Rightarrow> string \<Rightarrow> bool \<Rightarrow> cmd_state \<Rightarrow> cmd_state" where
  "Watch env fuel profileName debug s = runOrWatch env fuel profileName debug True s"

subsection \<open>\<^verbatim>\<open>Tool\<close>\<close>

definition Tool_locked ::
  "cmd_env \<Rightarrow> definition_value \<Rightarrow> string \<Rightarrow> string list \<Rightarrow> string \<Rightarrow> cmd_state \<Rightarrow> cmd_state" where
  "Tool_locked env filterDefinition filterName filterArgs dotRegolithPath s =
     (case CreateFilterRunner_result env filterDefinition filterName filterArgs of
        Inl err \<Rightarrow>
          go_return (Some (WrapErrorf err (createFilterRunnerError env) [AStr filterName]))
            (record_event (CallCreateFilterRunner filterName) s)
      | Inr filterRunner \<Rightarrow>
     (case Check filterRunner of
        Some err \<Rightarrow>
          go_return (Some (WrapErrorf err (filterRunnerCheckError env) [AStr filterName]))
            (record_event CallFilterCheck (record_event (CallCreateFilterRunner filterName) s))
      | None \<Rightarrow>
     (case SetupTmpFiles_result env of
        Some err \<Rightarrow>
          go_return (Some (WrapErrorf err (setupTmpFilesError env) [AStr dotRegolithPath]))
            (record_event CallSetupTmpFiles
               (record_event CallFilterCheck (record_event (CallCreateFilterRunner filterName) s)))
      | None \<Rightarrow>
     (case Run filterRunner of
        Some err \<Rightarrow>
          go_return (Some (WrapErrorf err (filterRunnerRunError env) [AStr filterName]))
            (record_event CallFilterRun
               (cmd_log LInfo ''Running the \"%s\" filter.'' [CStr filterName]
                  (record_event CallSetupTmpFiles
                     (record_event CallFilterCheck (record_event (CallCreateFilterRunner filterName) s)))))
      | None \<Rightarrow>
     (case InplaceExportProject_result env of
        Some err \<Rightarrow>
          go_return (Some (WrapError err
              ''Failed to overwrite the source files with generated files.''))
            (record_event CallInplaceExportProject
               (cmd_log LInfo ''Overwriting the source files.'' []
                  (record_event CallFilterRun
                     (cmd_log LInfo ''Running the \"%s\" filter.'' [CStr filterName]
                        (record_event CallSetupTmpFiles
                           (record_event CallFilterCheck
                              (record_event (CallCreateFilterRunner filterName) s)))))))
      | None \<Rightarrow>
          (let s1 = cmd_log LInfo ''Successfully ran the \"%s\" filter.'' [CStr filterName]
                      (record_event CallInplaceExportProject
                         (cmd_log LInfo ''Overwriting the source files.'' []
                            (record_event CallFilterRun
                               (cmd_log LInfo ''Running the \"%s\" filter.'' [CStr filterName]
                                  (record_event CallSetupTmpFiles
                                     (record_event CallFilterCheck
                                        (record_event (CallCreateFilterRunner filterName) s)))))))
           in go_return (sessionLockErr s1) s1))))))"

definition Tool :: "cmd_env \<Rightarrow> string \<Rightarrow> string list \<Rightarrow> bool \<Rightarrow> cmd_state \<Rightarrow> cmd_state" where
  "Tool env filterName filterArgs debug s0 =
     (case LoadConfigAsMap env s0 of
        Inl err \<Rightarrow>
          go_return (Some (WrapError err ''Could not load \"config.json\".''))
            (record_event (InitLogging debug) s0)
      | Inr configJson \<Rightarrow>
     (case ConfigFromObject env (Some configJson) of
        Inl err \<Rightarrow>
          go_return (Some (WrapError err ''Could not load \"config.json\".''))
            (record_event (InitLogging debug) s0)
      | Inr config \<Rightarrow>
     (case FilterDefinitions config filterName of
        None \<Rightarrow>
          go_return (Some (WrappedErrorf
              ''Unable to find the filter on the \"filterDefinitions\" list of the \"config.json\" file.\<newline>Filter name: %s''
              [AStr filterName]))
            (record_event (InitLogging debug) s0)
      | Some filterDefinition \<Rightarrow>
     (case GetDotRegolith env of
        Inl err \<Rightarrow>
          go_return (Some (WrapError err ''Unable to get the path to regolith cache folder.''))
            (record_event (InitLogging debug) s0)
      | Inr dotRegolithPath \<Rightarrow>
     (case CreateDirectoryIfNotExists env dotRegolithPath of
        Some err \<Rightarrow>
          go_return (Some (WrapErrorf err (osMkdirError env) [AStr dotRegolithPath]))
            (record_event (CallCreateDirectoryIfNotExists dotRegolithPath) (record_event (InitLogging debug) s0))
      | None \<Rightarrow>
     (case aquireSessionLock env dotRegolithPath of
        Some err \<Rightarrow>
          go_return (Some (WrapError err (aquireSessionLockError env)))
            (record_event (CallAquireSessionLock dotRegolithPath)
               (record_event (CallCreateDirectoryIfNotExists dotRegolithPath)
                  (record_event (InitLogging debug) s0)))
      | None \<Rightarrow>
          deferred_unlock env
            (Tool_locked env filterDefinition filterName filterArgs dotRegolithPath
               ((record_event (CallAquireSessionLock dotRegolithPath)
                   (record_event (CallCreateDirectoryIfNotExists dotRegolithPath)
                      (record_event (InitLogging debug) s0)))
                 \<lparr>sessionLockErr := None\<rparr>))))))))"

text \<open>
  Modelled from the spec: \<^verbatim>\<open>FilterDefinitionFromTheInternet\<close> is not among the sources.
  The spec: the version "is one of a semantic version, a git commit hash, the literal
  HEAD (track the latest commit), or latest (track the highest version tag); if
  omitted, resolve to the highest available version tag, falling back to HEAD if no
  version tags exist.  Resolution contacts the remote source to determine the concrete
  commit/tag satisfying the specifier [...] an explicit version or hash is pinned
  verbatim."  A remote source is what a repository offers: its latest commit, its
  highest version tag if it has one, and the versions and commits it can deliver.
\<close>

record remote_source =
  head_commit :: string
  highest_tag :: "string option"
  available :: "string list"

definition resolve_from_spec ::
  "(string \<Rightarrow> remote_source option) \<Rightarrow> string \<Rightarrow> string \<Rightarrow> string \<Rightarrow> error + remote_filter_definition" where
  "resolve_from_spec remote u n v =
     (case remote u of
        None \<Rightarrow> Inl (ExternalError ''the remote source cannot be reached'')
      | Some src \<Rightarrow>
          if v = ''HEAD'' then Inr \<lparr>Url = u, Version = head_commit src\<rparr>
          else if v = ''latest'' \<or> v = [] then
            Inr \<lparr>Url = u, Version = (case highest_tag src of Some t \<Rightarrow> t | None \<Rightarrow> head_commit src)\<rparr>
          else if v \<in> set (available src) then Inr \<lparr>Url = u, Version = v\<rparr>
          else Inl (ExternalError ''no such version''))"

subsection \<open>Reading the trace of a command\<close>

definition cmd_events_since :: "cmd_state \<Rightarrow> cmd_state \<Rightarrow> cmd_event list" where
  "cmd_events_since s s' = drop (length (cmd_trace s)) (cmd_trace s')"

text \<open>What \<open>start_logging\<close> emits.\<close>

definition start_events :: "cmd_env \<Rightarrow> bool \<Rightarrow> string \<Rightarrow> cmd_event list" where
  "start_events env debug msg =
     [InitLogging debug, CmdLog LInfo msg []] @
     (if \<not> hasGit env then [CmdLog LWarn (gitNotInstalledWarning env) []] else [])"

text \<open>Events that fetch, install or persist a filter.\<close>

fun installing_event :: "cmd_event \<Rightarrow> bool" where
  "installing_event (CallFilterDefinitionFromTheInternet _ _ _) = True"
| "installing_event (CallInstallFilters _) = True"
| "installing_event (CallWriteFile _) = True"
| "installing_event _ = False"

text \<open>
  What the \<open>k\<close>-th iteration of the watch loop emits up to its wait, and what the loop
  emits when the wait ends with a file change.
\<close>

definition iteration_events :: "cmd_env \<Rightarrow> string \<Rightarrow> nat \<Rightarrow> cmd_event list" where
  "iteration_events env profileName k =
     [CallRunProfile,
      (case RunProfile_result env k of
         Some err \<Rightarrow> CmdLog LError ''Failed to run profile %q: %s'' [CStr profileName, CErr err]
       | None \<Rightarrow> CmdLog LInfo ''Successfully ran the %q profile.'' [CStr profileName]),
      CmdLog LInfo ''Press Ctrl+C to stop watching.'' [],
      CallAwaitInterruption]"

definition restart_events :: "cmd_event list" where
  "restart_events = [CmdLog LWarn ''Restarting...'' []]"

text \<open>What \<^verbatim>\<open>runOrWatch\<close> emits before the watch loop starts.\<close>

definition watch_prefix :: "bool \<Rightarrow> string \<Rightarrow> string \<Rightarrow> cmd_event list" where
  "watch_prefix debug dotRegolithPath profileName =
     [InitLogging debug, CallCreateDirectoryIfNotExists dotRegolithPath,
      CallAquireSessionLock dotRegolithPath, CallCheckProfileImpl profileName,
      CallStartWatchingSourceFiles]"

section \<open>Example inputs\<close>

text \<open>
  A small project for the properties to be tried on: a configuration with one profile
  \<open>default\<close>, an environment in which every system call succeeds and \<^verbatim>\<open>os.Stat\<close>
  answers as given, and an empty world.
\<close>

definition example_runner :: "string \<Rightarrow> bool \<Rightarrow> error option \<Rightarrow> error option \<Rightarrow> filter_runner" where
  "example_runner i disabled check_res run_res =
     \<lparr>GetId = i, IsDisabled = disabled, IsRemoteFilter = False, Arguments = [],
      Check = check_res, Run = run_res, RunEffect = (\<lambda>ws. ws)\<rparr>"

definition example_config :: "filter_runner list \<Rightarrow> config" where
  "example_config fs =
     \<lparr>Name = ''demo'', ResourceFolder = ''packs/RP'', BehaviorFolder = ''packs/BP'',
      DataPath = ''packs/data'', FilterDefinitions = Map.empty,
      Profiles = [''default'' \<mapsto> \<lparr>Filters = fs,
                    ExportTarget = \<lparr>Target = ''development'', ReadOnly = False\<rparr>\<rparr>]\<rparr>"

definition example_env :: "(string \<Rightarrow> os_error + file_info) \<Rightarrow> filter_runner list \<Rightarrow> run_env" where
  "example_env st fs =
     \<lparr>Stat = st, RemoveAll_err = (\<lambda>_. None), MkdirAll_err = (\<lambda>_. None),
      Copy_err = (\<lambda>_ _. None), LoadConfigAsMap_err = None,
      ConfigFromObject_result = Inr (example_config fs),
      ExportProject_err = None, ExportProject_effect = (\<lambda>ws. ws)\<rparr>"

definition example_world :: world where
  "example_world = \<lparr>workspace = Map.empty, trace = []\<rparr>"

text \<open>
  Three answers of \<^verbatim>\<open>os.Stat\<close>: every path is a directory; the resource folder is
  missing and the behavior folder is a regular file; the resource folder cannot be
  examined (permission denied).
\<close>

definition all_dirs :: "string \<Rightarrow> os_error + file_info" where
  "all_dirs p = Inr \<lparr>IsDir = True\<rparr>"

definition rp_missing :: "string \<Rightarrow> os_error + file_info" where
  "rp_missing p = (if p = ''packs/RP'' then Inl ErrNotExist else Inr \<lparr>IsDir = True\<rparr>)"

definition bp_is_file :: "string \<Rightarrow> os_error + file_info" where
  "bp_is_file p = (if p = ''packs/BP'' then Inr \<lparr>IsDir = False\<rparr> else Inr \<lparr>IsDir = True\<rparr>)"

definition rp_denied :: "string \<Rightarrow> os_error + file_info" where
  "rp_denied p = (if p = ''packs/RP'' then Inl ErrPermission else Inr \<lparr>IsDir = True\<rparr>)"

text \<open>
  Two filter lists: one that runs through (\<open>b\<close> is disabled), and one whose disabled
  filter \<open>b\<close> fails its check.
\<close>

definition example_filters :: "filter_runner list" where
  "example_filters = [example_runner ''a'' False None None, example_runner ''b'' True None None]"

definition example_filters_bad_check :: "filter_runner list" where
  "example_filters_bad_check =
     [example_runner ''a'' False None None,
      example_runner ''b'' True (Some (ExternalError ''python is not installed'')) None]"



text \<open>
  A project for the commands: its configuration file defines the filter \<open>name-ninja\<close>,
  every call succeeds, except that releasing the session lock fails.  Two filters are
  requested, one tracking \<open>HEAD\<close> and one pinned to \<open>1.2.0\<close>; the remote source is
  the one modelled from the spec.
\<close>

definition example_remote :: "string \<Rightarrow> remote_source option" where
  "example_remote u =
     Some \<lparr>head_commit = ''0c3a9f1'', highest_tag = Some ''1.3.0'',
           available = [''1.2.0'', ''1.3.0'', ''0c3a9f1'']\<rparr>"

definition example_args :: "parsed_arg list" where
  "example_args =
     [\<lparr>url = ''github.com/Bedrock-OSS/regolith-filters'', name = ''texture_list'',
       version = ''HEAD''\<rparr>,
      \<lparr>url = ''github.com/Bedrock-OSS/regolith-filters'', name = ''bump_manifest'',
       version = ''1.2.0''\<rparr>]"

definition example_config_map :: config_map where
  "example_config_map =
     \<lparr>DataPathProperty = Some ''packs/data'',
      FilterDefinitionsProperty =
        Some [''name-ninja'' \<mapsto> ExistingEntry (JObject [(''version'', JString ''1.0.0'')])],
      OtherProperties = JObject [(''name'', JString ''demo'')]\<rparr>"

definition example_cmd_env :: "parsed_arg list \<Rightarrow> cmd_env" where
  "example_cmd_env args =
     \<lparr>gitNotInstalledWarning = ''git is not installed'',
      aquireSessionLockError = ''cannot acquire the session lock'',
      osMkdirError = ''cannot create %q'',
      createFilterRunnerError = ''cannot create the runner of %q'',
      filterRunnerCheckError = ''the check of %q failed'',
      setupTmpFilesError = ''cannot set up %q'',
      filterRunnerRunError = ''the filter %q failed'',
      ConfigFilePath = ''config.json'',
      hasGit = True,
      parseInstallFilterArgs = (\<lambda>filters. Inr args),
      LoadConfigAsMap_error = None,
      ConfigFromObject = (\<lambda>m. Inr ((example_config example_filters)
         \<lparr>FilterDefinitions :=
            [''name-ninja'' \<mapsto> ExistingEntry (JObject [(''version'', JString ''1.0.0'')])]\<rparr>)),
      GetDotRegolith = Inr ''.regolith'',
      CreateDirectoryIfNotExists = (\<lambda>p. None),
      aquireSessionLock = (\<lambda>p. None),
      unlockSession = Some (ExternalError ''cannot remove the lock file''),
      FilterDefinitionFromTheInternet = resolve_from_spec example_remote,
      installFilters = (\<lambda>defs force dataPath dotRegolithPath. None),
      updateFilters = (\<lambda>defs dotRegolithPath. None),
      WriteFile = (\<lambda>p. None),
      CheckProfileImpl_result = (\<lambda>p n. None),
      RunProfile_result = (\<lambda>k. if k = 1 then Some (ExternalError ''a filter failed'') else None),
      AwaitInterruption_result = (\<lambda>k. FileChange),
      CreateFilterRunner_result =
        (\<lambda>d n args. Inr (example_runner n False None None)),
      SetupTmpFiles_result = None,
      InplaceExportProject_result = None\<rparr>"

definition example_cmd_state :: cmd_state where
  "example_cmd_state =
     \<lparr>sessionLockErr = None, outcome = Pending, cmd_trace = [],
      config_json = example_config_map\<rparr>"

section \<open>Lemmas about the pipeline\<close>

lemma tmp_path_neq: "tmp_path a = tmp_path b \<longleftrightarrow> a = b"
  by (simp add: tmp_path_def)

lemma tmp_under: "is_under ''.regolith/tmp'' (tmp_path s)"
  by (simp add: is_under_def tmp_path_def)

lemma tmp_path_not_tmp: "tmp_path s \<noteq> ''.regolith/tmp''"
  by (simp add: tmp_path_def)

lemma os_MkdirAll_frame:
  "os_MkdirAll env p w = (r, w') \<Longrightarrow> q \<noteq> p \<Longrightarrow> workspace w' q = workspace w q"
  by (auto simp: os_MkdirAll_def emit_def Let_def split: option.splits)

lemma os_MkdirAll_ok:
  "MkdirAll_err env p = None \<Longrightarrow> workspace w p = None \<Longrightarrow>
   os_MkdirAll env p w = (None, w\<lparr>workspace := (workspace w)(p \<mapsto> EmptyDir), trace := trace w @ [SysMkdirAll p]\<rparr>)"
  by (auto simp: os_MkdirAll_def emit_def Let_def split: option.splits)

lemma setup_frame:
  "setup_tmp_directory env path short descr w = (r, w') \<Longrightarrow> q \<noteq> tmp_path short \<Longrightarrow>
   workspace w' q = workspace w q"
  by (auto simp: setup_tmp_directory_def os_Stat_def os_MkdirAll_def copy_Copy_def Logger_def emit_def Let_def
      split: if_splits sum.splits option.splits prod.splits)

lemma setup_absent:
  "path \<noteq> [] \<Longrightarrow> Stat env path = Inl err \<Longrightarrow> IsNotExist err \<Longrightarrow>
   MkdirAll_err env (tmp_path short) = None \<Longrightarrow> workspace w (tmp_path short) = None \<Longrightarrow>
   setup_tmp_directory env path short descr w =
     (None, w\<lparr>workspace := (workspace w)(tmp_path short \<mapsto> EmptyDir),
              trace := trace w @ [SysStat path,
                 Log LWarn ''%s %q does not exist'' [AStr descr, AStr path],
                 SysMkdirAll (tmp_path short)]\<rparr>)"
  by (simp add: setup_tmp_directory_def os_Stat_def os_MkdirAll_def Logger_def emit_def Let_def)

lemma setup_file:
  "path \<noteq> [] \<Longrightarrow> Stat env path = Inr st \<Longrightarrow> \<not> IsDir st \<Longrightarrow>
   setup_tmp_directory env path short descr w =
     (Some (WrappedErrorf ''%s path %q is not a directory'' [AStr descr, AStr path]),
      emit (SysStat path) w)"
  by (simp add: setup_tmp_directory_def os_Stat_def)

lemma setup_other_error:
  "path \<noteq> [] \<Longrightarrow> Stat env path = Inl err \<Longrightarrow> \<not> IsNotExist err \<Longrightarrow>
   setup_tmp_directory env path short descr w = (None, emit (SysStat path) w)"
  by (simp add: setup_tmp_directory_def os_Stat_def)

lemma events_since_append: "trace w' = trace w @ es \<Longrightarrow> events_since w w' = es"
  by (simp add: events_since_def)

lemma check_ids_append: "check_ids (xs @ ys) = check_ids xs @ check_ids ys"
  by (induction xs rule: check_ids.induct) auto

lemma run_ids_append: "run_ids (xs @ ys) = run_ids xs @ run_ids ys"
  by (induction xs rule: run_ids.induct) auto

lemma only_phase_append: "only_phase ph (xs @ ys) \<longleftrightarrow> only_phase ph xs \<and> only_phase ph ys"
  by (simp add: only_phase_def)

lemma only_phase_phases: "only_phase ph es \<Longrightarrow> set (phases es) \<subseteq> {ph}"
  by (auto simp: only_phase_def phases_def List.map_filter_def list_all_iff)

lemma phases_append: "phases (xs @ ys) = phases xs @ phases ys"
  by (simp add: phases_def List.map_filter_def)

lemma only_phase_check_ids: "only_phase ph es \<Longrightarrow> ph \<noteq> PhaseCheck \<Longrightarrow> check_ids es = []"
  by (induction es rule: check_ids.induct) (auto simp: only_phase_def)

lemma only_phase_run_ids: "only_phase ph es \<Longrightarrow> ph \<noteq> PhaseRun \<Longrightarrow> run_ids es = []"
  by (induction es rule: run_ids.induct) (auto simp: only_phase_def)

lemma CheckProfileImpl_trace:
  "CheckProfileImpl fs w = (r, w') \<Longrightarrow>
   trace w' = trace w @ map (\<lambda>f. CallCheck (GetId f)) (checked fs) \<and> workspace w' = workspace w"
proof (induction fs arbitrary: w)
  case Nil
  then show ?case by simp
next
  case (Cons f fs)
  show ?case
  proof (cases "Check f")
    case None
    with Cons.prems have "CheckProfileImpl fs (emit (CallCheck (GetId f)) w) = (r, w')"
      by (simp add: Let_def)
    from Cons.IH[OF this] None show ?thesis by (simp add: emit_def)
  next
    case (Some e)
    with Cons.prems show ?thesis by (auto simp: Let_def emit_def)
  qed
qed

lemma CheckProfileImpl_result:
  "fst (CheckProfileImpl fs w) = None \<longleftrightarrow> list_all (\<lambda>f. Check f = None) fs"
  by (induction fs arbitrary: w) (auto simp: Let_def split: option.splits)

lemma checked_all: "list_all (\<lambda>f. Check f = None) fs \<Longrightarrow> checked fs = fs"
  by (induction fs) auto

lemma check_ids_map: "check_ids (map (\<lambda>f. CallCheck (GetId f)) fs) = map GetId fs"
  by (induction fs) auto

lemma only_phase_check_map: "only_phase PhaseCheck (map (\<lambda>f. CallCheck (GetId f)) fs)"
  by (induction fs) (auto simp: only_phase_def)

lemma RunProfileImpl_trace:
  "RunProfileImpl fs w = (r, w') \<Longrightarrow>
   \<exists>es. trace w' = trace w @ es \<and> only_phase PhaseRun es \<and> run_ids es = map GetId (attempted fs)"
proof (induction fs arbitrary: w)
  case Nil
  then show ?case by (simp add: only_phase_def)
next
  case (Cons f fs)
  show ?case
  proof (cases "IsDisabled f")
    case True
    let ?w1 = "Logger LInfo ''Filter \"%s\" is disabled, skipping.'' [AStr (GetId f)] w"
    from Cons.prems True have "RunProfileImpl fs ?w1 = (r, w')" by simp
    from Cons.IH[OF this] obtain es where
      "trace w' = trace ?w1 @ es" "only_phase PhaseRun es" "run_ids es = map GetId (attempted fs)"
      by blast
    with True show ?thesis
      by (intro exI[of _ "Log LInfo ''Filter \"%s\" is disabled, skipping.'' [AStr (GetId f)] # es"])
         (simp add: Logger_def emit_def only_phase_def)
  next
    case False
    define w1 where "w1 = (if GetId f \<noteq> [] then Logger LInfo ''Running filter %s'' [AStr (GetId f)] w else w)"
    define pre where "pre = (if GetId f \<noteq> [] then [Log LInfo ''Running filter %s'' [AStr (GetId f)]] else [])"
    define w4 where "w4 = Logger LDebug ''Executed in %s'' [ADuration]
        ((emit (CallRun (GetId f)) w1)\<lparr>workspace := RunEffect f (workspace (emit (CallRun (GetId f)) w1))\<rparr>)"
    have t4: "trace w4 = trace w @ pre @ [CallRun (GetId f), Log LDebug ''Executed in %s'' [ADuration]]"
      by (simp add: w4_def w1_def pre_def Logger_def emit_def)
    have op: "only_phase PhaseRun (pre @ [CallRun (GetId f), Log LDebug ''Executed in %s'' [ADuration]])"
      by (simp add: pre_def only_phase_def)
    have ri: "run_ids (pre @ [CallRun (GetId f), Log LDebug ''Executed in %s'' [ADuration]]) = [GetId f]"
      by (simp add: pre_def run_ids_append)
    show ?thesis
    proof (cases "Run f")
      case None
      with Cons.prems False have "RunProfileImpl fs w4 = (r, w')"
        by (simp add: Let_def w4_def w1_def)
      from Cons.IH[OF this] obtain es where
        es: "trace w' = trace w4 @ es" "only_phase PhaseRun es" "run_ids es = map GetId (attempted fs)"
        by blast
      show ?thesis
        using es t4 op ri None False
        by (intro exI[of _ "(pre @ [CallRun (GetId f), Log LDebug ''Executed in %s'' [ADuration]]) @ es"])
           (simp add: only_phase_append run_ids_append del: append_assoc)
    next
      case (Some e)
      with Cons.prems False have "w' = w4"
        by (simp add: Let_def w4_def w1_def)
      then show ?thesis
        using t4 op ri Some False
        by (intro exI[of _ "pre @ [CallRun (GetId f), Log LDebug ''Executed in %s'' [ADuration]]"]) simp
    qed
  qed
qed

lemma RunProfileImpl_result:
  "fst (RunProfileImpl fs w) = None \<longleftrightarrow> list_all (\<lambda>f. IsDisabled f \<or> Run f = None) fs"
  by (induction fs arbitrary: w) (auto simp: Let_def split: option.splits)

lemma attempted_all:
  "list_all (\<lambda>f. IsDisabled f \<or> Run f = None) fs \<Longrightarrow> attempted fs = filter (\<lambda>f. \<not> IsDisabled f) fs"
  by (induction fs) auto

lemma attempted_enabled: "set (attempted fs) \<subseteq> {f \<in> set fs. \<not> IsDisabled f}"
  by (induction fs) auto

lemma steps_refl: "steps ph w w"
  by (simp add: steps_def only_phase_def)

lemma steps_trans: "steps ph w w1 \<Longrightarrow> steps ph w1 w2 \<Longrightarrow> steps ph w w2"
  by (auto simp: steps_def only_phase_append)

lemma steps_Logger: "steps ph w (Logger lvl msg args w)"
  by (simp add: steps_def Logger_def emit_def only_phase_def)

lemma steps_RemoveAll:
  "os_RemoveAll env p w = (r, w') \<Longrightarrow> p \<noteq> ''.regolith/tmp/data'' \<Longrightarrow> steps PhaseStage w w'"
  by (auto simp: os_RemoveAll_def steps_def emit_def only_phase_def Let_def split: option.splits)

lemma steps_MkdirAll: "os_MkdirAll env p w = (r, w') \<Longrightarrow> steps PhaseStage w w'"
  by (auto simp: os_MkdirAll_def steps_def emit_def only_phase_def Let_def split: option.splits)

lemma steps_Copy: "copy_Copy env p q w = (r, w') \<Longrightarrow> steps PhaseStage w w'"
  by (auto simp: copy_Copy_def steps_def emit_def only_phase_def Let_def split: option.splits)

lemma steps_Stat: "os_Stat env p w = (r, w') \<Longrightarrow> steps PhaseStage w w'"
  by (auto simp: os_Stat_def steps_def emit_def only_phase_def)

lemma steps_setup:
  assumes "setup_tmp_directory env path short descr w = (r, w')"
  shows "steps PhaseStage w w'"
proof (cases "path = []")
  case True
  with assms show ?thesis
    by (auto simp: setup_tmp_directory_def split: prod.splits option.splits dest: steps_MkdirAll)
next
  case False
  obtain s w1 where st: "os_Stat env path w = (s, w1)" by (cases "os_Stat env path w")
  have a: "steps PhaseStage w w1" using st by (rule steps_Stat)
  show ?thesis
  proof (cases s)
    case (Inl err)
    show ?thesis
    proof (cases "IsNotExist err")
      case True
      let ?w2 = "Logger LWarn ''%s %q does not exist'' [AStr descr, AStr path] w1"
      obtain r3 w3 where mk: "os_MkdirAll env (tmp_path short) ?w2 = (r3, w3)"
        by (cases "os_MkdirAll env (tmp_path short) ?w2")
      have "w' = w3" using assms False st Inl True mk
        by (auto simp: setup_tmp_directory_def Let_def split: option.splits)
      moreover have "steps PhaseStage w1 w3"
        using steps_trans[OF steps_Logger steps_MkdirAll[OF mk]] .
      ultimately show ?thesis using a steps_trans by blast
    next
      case False
      with assms \<open>path \<noteq> []\<close> st Inl have "w' = w1"
        by (simp add: setup_tmp_directory_def)
      with a show ?thesis by simp
    qed
  next
    case (Inr stats)
    show ?thesis
    proof (cases "IsDir stats")
      case True
      obtain r2 w2 where cp: "copy_Copy env path (tmp_path short) w1 = (r2, w2)"
        by (cases "copy_Copy env path (tmp_path short) w1")
      have "w' = w2" using assms False st Inr True cp
        by (auto simp: setup_tmp_directory_def split: option.splits)
      with a steps_Copy[OF cp] show ?thesis using steps_trans by blast
    next
      case F: False
      with assms False st Inr have "w' = w1"
        by (simp add: setup_tmp_directory_def)
      with a show ?thesis by simp
    qed
  qed
qed

lemma os_RemoveAll_trace:
  "os_RemoveAll env p w = (r, w') \<Longrightarrow> trace w' = trace w @ [SysRemoveAll p]"
  by (auto simp: os_RemoveAll_def emit_def Let_def split: option.splits)

lemma steps_SetupTmpFiles:
  assumes "SetupTmpFiles env cfg w = (r, w')"
  shows "\<exists>es. trace w' = trace w @ es \<and> only_phase PhaseStage es \<and> PhaseStage \<in> set (phases es)"
proof -
  let ?w0 = "Logger LDebug ''Cleaning .regolith/tmp'' [] w"
  obtain r1 w1 where s1: "os_RemoveAll env ''.regolith/tmp'' ?w0 = (r1, w1)"
    by (cases "os_RemoveAll env ''.regolith/tmp'' ?w0")
  obtain r2 w2 where s2: "os_MkdirAll env ''.regolith/tmp'' w1 = (r2, w2)"
    by (cases "os_MkdirAll env ''.regolith/tmp'' w1")
  let ?w2 = "Logger LDebug ''Copying project files to .regolith/tmp'' [] w2"
  obtain r3 w3 where s3: "setup_tmp_directory env (ResourceFolder cfg) ''RP'' ''resource folder'' ?w2 = (r3, w3)"
    by (cases "setup_tmp_directory env (ResourceFolder cfg) ''RP'' ''resource folder'' ?w2")
  obtain r4 w4 where s4: "setup_tmp_directory env (BehaviorFolder cfg) ''BP'' ''behavior folder'' w3 = (r4, w4)"
    by (cases "setup_tmp_directory env (BehaviorFolder cfg) ''BP'' ''behavior folder'' w3")
  obtain r5 w5 where s5: "setup_tmp_directory env (DataPath cfg) ''data'' ''data folder'' w4 = (r5, w5)"
    by (cases "setup_tmp_directory env (DataPath cfg) ''data'' ''data folder'' w4")
  have t1: "trace w1 = trace w @ [Log LDebug ''Cleaning .regolith/tmp'' [], SysRemoveAll ''.regolith/tmp'']"
    using os_RemoveAll_trace[OF s1] by (simp add: Logger_def emit_def)
  have a1: "steps PhaseStage w w1"
    using t1 by (simp add: steps_def only_phase_def)
  have a2: "steps PhaseStage w1 w2" using s2 by (rule steps_MkdirAll)
  have a3: "steps PhaseStage w2 w3" using steps_trans[OF steps_Logger steps_setup[OF s3]] .
  have a4: "steps PhaseStage w3 w4" using s4 by (rule steps_setup)
  have a5: "steps PhaseStage w4 w5" using s5 by (rule steps_setup)
  have a6: "steps PhaseStage w5 (Logger LDebug ''Setup done in '' [ADuration] w5)" by (rule steps_Logger)
  have b3: "steps PhaseStage w1 w3" using steps_trans[OF a2 a3] .
  have b4: "steps PhaseStage w1 w4" using steps_trans[OF b3 a4] .
  have b5: "steps PhaseStage w1 w5" using steps_trans[OF b4 a5] .
  have b6: "steps PhaseStage w1 (Logger LDebug ''Setup done in '' [ADuration] w5)"
    using steps_trans[OF b5 a6] .
  have "steps PhaseStage w1 w'"
    using assms s1 s2 s3 s4 s5 a2 b3 b4 b5 b6 steps_refl[of PhaseStage w1]
    by (auto simp: SetupTmpFiles_def split: option.splits)
  then obtain es where "trace w' = trace w1 @ es" "only_phase PhaseStage es"
    by (auto simp: steps_def)
  with t1 show ?thesis
    by (intro exI[of _ "[Log LDebug ''Cleaning .regolith/tmp'' [], SysRemoveAll ''.regolith/tmp''] @ es"])
       (simp add: only_phase_def phases_def List.map_filter_def)
qed

lemma setup_result_indep:
  "fst (setup_tmp_directory env path short descr w) = fst (setup_tmp_directory env path short descr w0)"
  by (simp add: setup_tmp_directory_def os_Stat_def os_MkdirAll_def copy_Copy_def Let_def
      split: sum.splits option.splits)

lemma fst_case_prod_option:
  "fst (case p of (Some e, w) \<Rightarrow> (Some (f e), w) | (None, w) \<Rightarrow> g w) =
   (case fst p of Some e \<Rightarrow> Some (f e) | None \<Rightarrow> fst (g (snd p)))"
  by (cases p) (auto split: option.splits)

lemma SetupTmpFiles_result:
  "fst (SetupTmpFiles env cfg w) =
    (case RemoveAll_err env ''.regolith/tmp'' of
       Some err \<Rightarrow> Some (WrapError (OSError err) ''Unable to clean temporary directory: \".regolith/tmp\".'')
     | None \<Rightarrow>
    (case MkdirAll_err env ''.regolith/tmp'' of
       Some err \<Rightarrow> Some (WrapError (OSError err) ''Unable to prepare temporary directory: \"./regolith/tmp\".'')
     | None \<Rightarrow>
    (case fst (setup_tmp_directory env (ResourceFolder cfg) ''RP'' ''resource folder'' w0) of
       Some err \<Rightarrow> Some (WrapErrorf err ''Failed to setup resource folder in the temporary directory.'' [])
     | None \<Rightarrow>
    (case fst (setup_tmp_directory env (BehaviorFolder cfg) ''BP'' ''behavior folder'' w0) of
       Some err \<Rightarrow> Some (WrapErrorf err ''Failed to setup behavior folder in the temporary directory.'' [])
     | None \<Rightarrow>
    (case fst (setup_tmp_directory env (DataPath cfg) ''data'' ''data folder'' w0) of
       Some err \<Rightarrow> Some (WrapErrorf err ''Failed to setup data folder in the temporary directory.'' [])
     | None \<Rightarrow> None)))))"
proof -
  define R where "R path short descr = fst (setup_tmp_directory env path short descr w0)"
    for path short descr
  have r: "\<And>p w. fst (os_RemoveAll env p w) = RemoveAll_err env p"
    by (auto simp: os_RemoveAll_def Let_def split: option.splits)
  have m: "\<And>p w. fst (os_MkdirAll env p w) = MkdirAll_err env p"
    by (auto simp: os_MkdirAll_def Let_def split: option.splits)
  have s: "\<And>path short descr w. fst (setup_tmp_directory env path short descr w) = R path short descr"
    unfolding R_def by (rule setup_result_indep)
  show ?thesis
    unfolding SetupTmpFiles_def fst_case_prod_option r m s
    by (simp split: option.splits)
qed

lemma SetupTmpFiles_result_indep:
  "fst (SetupTmpFiles env cfg w) = fst (SetupTmpFiles env cfg w0)"
  by (simp add: SetupTmpFiles_result[of env cfg w w0] SetupTmpFiles_result[of env cfg w0 w0])

lemma os_RemoveAll_gone: "os_RemoveAll env p w = (None, w') \<Longrightarrow> workspace w' p = None"
  by (auto simp: os_RemoveAll_def remove_tree_def Let_def split: option.splits)

lemma os_RemoveAll_result: "fst (os_RemoveAll env p w) = RemoveAll_err env p"
  by (auto simp: os_RemoveAll_def Let_def split: option.splits)

lemma ExportProject_trace:
  "ExportProject env w = (r, w') \<Longrightarrow> trace w' = trace w @ [CallExportProject] \<and> r = ExportProject_err env"
  by (auto simp: ExportProject_def emit_def Let_def)

lemma RunProfile_exits:
  assumes ld: "LoadConfigAsMap_err env = None" "ConfigFromObject_result env = Inr cfg"
    and run: "RunProfile env profileName w = (r, w')"
  defines "fs \<equiv> Filters (lookup_Profile cfg profileName)"
  defines "ce \<equiv> map (\<lambda>f. CallCheck (GetId f)) (checked fs)"
  defines "checks_ok \<equiv> list_all (\<lambda>f. Check f = None) fs"
  defines "runs_ok \<equiv> list_all (\<lambda>f. IsDisabled f \<or> Run f = None) fs"
  shows "\<exists>se re xe. trace w' = trace w @ ce @ se @ re @ xe \<and>
           only_phase PhaseStage se \<and> only_phase PhaseRun re \<and>
           ((\<not> checks_ok \<and> r \<noteq> None \<and> se = [] \<and> re = [] \<and> xe = []) \<or>
            (checks_ok \<and> r \<noteq> None \<and> fst (SetupTmpFiles env cfg w) \<noteq> None \<and>
               PhaseStage \<in> set (phases se) \<and> re = [] \<and> xe = []) \<or>
            (checks_ok \<and> fst (SetupTmpFiles env cfg w) = None \<and>
               PhaseStage \<in> set (phases se) \<and> run_ids re = map GetId (attempted fs) \<and>
               ((\<not> runs_ok \<and> r \<noteq> None \<and> xe = []) \<or>
                (runs_ok \<and> ExportProject_err env \<noteq> None \<and> r \<noteq> None \<and> xe = export_events) \<or>
                (runs_ok \<and> ExportProject_err env = None \<and> xe = export_events @ cleanup_events \<and>
                   r = map_option (\<lambda>e. WrapError (OSError e) ''Unable to clean .regolith/tmp/data directory.'')
                         (RemoveAll_err env ''.regolith/tmp/data'') \<and>
                   (r = None \<longrightarrow> workspace w' ''.regolith/tmp/data'' = None)))))"
proof -
  obtain r1 w1 where s1: "CheckProfileImpl fs w = (r1, w1)" by (cases "CheckProfileImpl fs w")
  have t1: "trace w1 = trace w @ ce" using CheckProfileImpl_trace[OF s1] by (simp add: ce_def)
  have c1: "r1 = None \<longleftrightarrow> checks_ok" using CheckProfileImpl_result[of fs w] s1 by (simp add: checks_ok_def)
  show ?thesis
  proof (cases r1)
    case (Some e)
    with run ld s1 have "r = Some e" "w' = w1" by (auto simp: RunProfile_def fs_def)
    with t1 c1 Some show ?thesis
      by (intro exI[of _ "[]"]) (simp add: only_phase_def)
  next
    case None
    note r1 = None
    obtain r2 w2 where s2: "SetupTmpFiles env cfg w1 = (r2, w2)" by (cases "SetupTmpFiles env cfg w1")
    have c2: "fst (SetupTmpFiles env cfg w) = r2"
      using SetupTmpFiles_result_indep[of env cfg w w1] s2 by simp
    from steps_SetupTmpFiles[OF s2] obtain se where
      se: "trace w2 = trace w1 @ se" "only_phase PhaseStage se" "PhaseStage \<in> set (phases se)" by blast
    show ?thesis
    proof (cases r2)
      case (Some e)
      with run ld s1 r1 s2 have rw: "r \<noteq> None" "w' = w2" by (auto simp: RunProfile_def fs_def)
      show ?thesis
        apply (rule exI[of _ se], rule exI[of _ "[]"], rule exI[of _ "[]"])
        using rw t1 c1 r1 se c2 Some by (simp add: only_phase_def)
    next
      case None
      note r2 = None
      obtain r3 w3 where s3: "RunProfileImpl fs w2 = (r3, w3)" by (cases "RunProfileImpl fs w2")
      from RunProfileImpl_trace[OF s3] obtain re where
        re: "trace w3 = trace w2 @ re" "only_phase PhaseRun re" "run_ids re = map GetId (attempted fs)" by blast
      have c3: "r3 = None \<longleftrightarrow> runs_ok" using RunProfileImpl_result[of fs w2] s3 by (simp add: runs_ok_def)
      show ?thesis
      proof (cases r3)
        case (Some e)
        with run ld s1 r1 s2 r2 s3 have rw: "r \<noteq> None" "w' = w3" by (auto simp: RunProfile_def fs_def)
        show ?thesis
          apply (rule exI[of _ se], rule exI[of _ re], rule exI[of _ "[]"])
          using rw t1 c1 r1 se re c3 c2 r2 Some by simp
      next
        case None
        note r3 = None
        let ?w3 = "Logger LInfo ''Moving files to target directory.'' [] w3"
        obtain r4 w4 where s4: "ExportProject env ?w3 = (r4, w4)" by (cases "ExportProject env ?w3")
        have t4: "trace w4 = trace w3 @ export_events" "r4 = ExportProject_err env"
          using ExportProject_trace[OF s4] by (simp_all add: Logger_def emit_def export_events_def)
        show ?thesis
        proof (cases r4)
          case (Some e)
          with run ld s1 r1 s2 r2 s3 r3 s4 have rw: "r \<noteq> None" "w' = w4"
            by (auto simp: RunProfile_def fs_def)
          show ?thesis
            apply (rule exI[of _ se], rule exI[of _ re], rule exI[of _ export_events])
            using rw t1 c1 r1 se re c3 r3 t4 c2 r2 Some by auto
        next
          case None
          note r4 = None
          let ?w4 = "Logger LDebug ''Done in '' [ADuration] w4"
          obtain r5 w5 where s5: "os_RemoveAll env ''.regolith/tmp/data'' ?w4 = (r5, w5)"
            by (cases "os_RemoveAll env ''.regolith/tmp/data'' ?w4")
          have t5: "trace w5 = trace w4 @ cleanup_events"
            using os_RemoveAll_trace[OF s5] by (simp add: Logger_def emit_def cleanup_events_def)
          have r5: "r5 = RemoveAll_err env ''.regolith/tmp/data''"
            using os_RemoveAll_result[of env "''.regolith/tmp/data''" ?w4] s5 by simp
          have res: "r = map_option (\<lambda>e. WrapError (OSError e) ''Unable to clean .regolith/tmp/data directory.'') r5"
              and w5: "w' = w5"
            using run ld s1 r1 s2 r2 s3 r3 s4 r4 s5
            by (auto simp: RunProfile_def fs_def split: option.splits)
          have gone: "r = None \<longrightarrow> workspace w' ''.regolith/tmp/data'' = None"
            using res w5 s5 os_RemoveAll_gone[of env "''.regolith/tmp/data''" ?w4 w5] by auto
          show ?thesis
            apply (rule exI[of _ se], rule exI[of _ re], rule exI[of _ "export_events @ cleanup_events"])
            using t1 c1 r1 se re c3 r3 t4 r4 t5 res r5 w5 gone c2 r2 by auto
        qed
      qed
    qed
  qed
qed

lemma steps_events: "steps ph w w' \<Longrightarrow> \<exists>es. trace w' = trace w @ es"
  by (auto simp: steps_def)

lemma os_RemoveAll_under:
  "os_RemoveAll env p w = (None, w') \<Longrightarrow> is_under p q \<Longrightarrow> workspace w' q = None"
  by (auto simp: os_RemoveAll_def remove_tree_def Let_def split: option.splits)

lemma SetupTmpFiles_success:
  assumes "SetupTmpFiles env cfg w = (None, w')"
  obtains w2 w3 w4 w5 where
    "\<And>s. workspace w2 (tmp_path s) = None"
    "steps PhaseStage w w2"
    "setup_tmp_directory env (ResourceFolder cfg) ''RP'' ''resource folder'' w2 = (None, w3)"
    "setup_tmp_directory env (BehaviorFolder cfg) ''BP'' ''behavior folder'' w3 = (None, w4)"
    "setup_tmp_directory env (DataPath cfg) ''data'' ''data folder'' w4 = (None, w5)"
    "workspace w' = workspace w5"
    "steps PhaseStage w5 w'"
proof -
  let ?w0 = "Logger LDebug ''Cleaning .regolith/tmp'' [] w"
  obtain r1 w1 where s1: "os_RemoveAll env ''.regolith/tmp'' ?w0 = (r1, w1)"
    by (cases "os_RemoveAll env ''.regolith/tmp'' ?w0")
  obtain r2 w2 where s2: "os_MkdirAll env ''.regolith/tmp'' w1 = (r2, w2)"
    by (cases "os_MkdirAll env ''.regolith/tmp'' w1")
  let ?w2 = "Logger LDebug ''Copying project files to .regolith/tmp'' [] w2"
  obtain r3 w3 where s3: "setup_tmp_directory env (ResourceFolder cfg) ''RP'' ''resource folder'' ?w2 = (r3, w3)"
    by (cases "setup_tmp_directory env (ResourceFolder cfg) ''RP'' ''resource folder'' ?w2")
  obtain r4 w4 where s4: "setup_tmp_directory env (BehaviorFolder cfg) ''BP'' ''behavior folder'' w3 = (r4, w4)"
    by (cases "setup_tmp_directory env (BehaviorFolder cfg) ''BP'' ''behavior folder'' w3")
  obtain r5 w5 where s5: "setup_tmp_directory env (DataPath cfg) ''data'' ''data folder'' w4 = (r5, w5)"
    by (cases "setup_tmp_directory env (DataPath cfg) ''data'' ''data folder'' w4")
  have ok: "r1 = None" "r2 = None" "r3 = None" "r4 = None" "r5 = None"
       "w' = Logger LDebug ''Setup done in '' [ADuration] w5"
    using assms s1 s2 s3 s4 s5
    by (auto simp: SetupTmpFiles_def split: option.splits)
  have g1: "workspace w1 (tmp_path s) = None" for s
    using os_RemoveAll_under[of env _ ?w0 w1, OF _ tmp_under] s1 ok by simp
  have g2: "workspace ?w2 (tmp_path s) = None" for s
    using os_MkdirAll_frame[OF s2, of "tmp_path s"] g1[of s]
    by (simp add: tmp_path_not_tmp Logger_def emit_def)
  have a: "steps PhaseStage w ?w2"
    using steps_trans[OF steps_trans[OF steps_Logger steps_RemoveAll[OF s1]]
            steps_trans[OF steps_MkdirAll[OF s2] steps_Logger]]
    by simp
  show ?thesis
    using that[of ?w2 w3 w4 w5] g2 a s3 s4 s5 ok steps_Logger[of PhaseStage w5]
    by (simp add: Logger_def emit_def)
qed

lemma role_paths_distinct:
  "tmp_path ''RP'' \<noteq> tmp_path ''BP''" "tmp_path ''RP'' \<noteq> tmp_path ''data''"
  "tmp_path ''BP'' \<noteq> tmp_path ''data''"
  by (simp_all add: tmp_path_def)

lemma SetupTmpFiles_role:
  assumes ok: "SetupTmpFiles env cfg w = (None, w')"
      and role: "(path, short, descr) \<in> set (roles cfg)"
  obtains wa wb where
    "workspace wa (tmp_path short) = None"
    "\<exists>es. trace wa = trace w @ es"
    "setup_tmp_directory env path short descr wa = (None, wb)"
    "workspace w' (tmp_path short) = workspace wb (tmp_path short)"
    "\<exists>es. trace w' = trace wb @ es"
proof -
  from SetupTmpFiles_success[OF ok] obtain w2 w3 w4 w5 where
    g: "\<And>s. workspace w2 (tmp_path s) = None"
    and a: "steps PhaseStage w w2"
    and s3: "setup_tmp_directory env (ResourceFolder cfg) ''RP'' ''resource folder'' w2 = (None, w3)"
    and s4: "setup_tmp_directory env (BehaviorFolder cfg) ''BP'' ''behavior folder'' w3 = (None, w4)"
    and s5: "setup_tmp_directory env (DataPath cfg) ''data'' ''data folder'' w4 = (None, w5)"
    and e: "workspace w' = workspace w5"
    and z: "steps PhaseStage w5 w'"
    by blast
  note b3 = steps_setup[OF s3] and b4 = steps_setup[OF s4] and b5 = steps_setup[OF s5]
  from role consider
      (RP) "path = ResourceFolder cfg" "short = ''RP''" "descr = ''resource folder''"
    | (BP) "path = BehaviorFolder cfg" "short = ''BP''" "descr = ''behavior folder''"
    | (DATA) "path = DataPath cfg" "short = ''data''" "descr = ''data folder''"
    by (auto simp: roles_def)
  then show ?thesis
  proof cases
    case RP
    have "workspace w' (tmp_path short) = workspace w3 (tmp_path short)"
      using e setup_frame[OF s4, of "tmp_path ''RP''"] setup_frame[OF s5, of "tmp_path ''RP''"]
        role_paths_distinct RP by simp
    then show ?thesis
      using that[of w2 w3] g[of short] s3 RP steps_events[OF a]
        steps_events[OF steps_trans[OF b4 steps_trans[OF b5 z]]]
      by simp
  next
    case BP
    have "workspace w3 (tmp_path short) = None"
      using g[of short] setup_frame[OF s3, of "tmp_path ''BP''"] role_paths_distinct BP by simp
    moreover have "workspace w' (tmp_path short) = workspace w4 (tmp_path short)"
      using e setup_frame[OF s5, of "tmp_path ''BP''"] role_paths_distinct BP by simp
    ultimately show ?thesis
      using that[of w3 w4] s4 BP steps_events[OF steps_trans[OF a b3]]
        steps_events[OF steps_trans[OF b5 z]]
      by simp
  next
    case DATA
    have "workspace w4 (tmp_path short) = None"
      using g[of short] setup_frame[OF s3, of "tmp_path ''data''"]
        setup_frame[OF s4, of "tmp_path ''data''"] role_paths_distinct DATA by simp
    then show ?thesis
      using that[of w4 w5] s5 e DATA steps_events[OF steps_trans[OF a steps_trans[OF b3 b4]]]
        steps_events[OF z]
      by simp
  qed
qed

lemma SetupTmpFiles_file_fails:
  assumes role: "(path, short, descr) \<in> set (roles cfg)"
      and "path \<noteq> []" "Stat env path = Inr st" "\<not> IsDir st"
  shows "fst (SetupTmpFiles env cfg w) \<noteq> None"
proof
  assume "fst (SetupTmpFiles env cfg w) = None"
  then have ok: "SetupTmpFiles env cfg w = (None, snd (SetupTmpFiles env cfg w))"
    by (metis prod.collapse)
  from SetupTmpFiles_role[OF ok role] obtain wa wb where
    "setup_tmp_directory env path short descr wa = (None, wb)" by blast
  with setup_file[OF assms(2-4), of short descr wa] show False by simp
qed

lemmas example_defs = example_runner_def example_config_def example_env_def example_world_def
  all_dirs_def rp_missing_def bp_is_file_def rp_denied_def example_filters_def

lemmas run_defs = RunProfile_def lookup_Profile_def SetupTmpFiles_def setup_tmp_directory_def
  os_Stat_def os_MkdirAll_def os_RemoveAll_def copy_Copy_def Logger_def emit_def tmp_path_def
  ExportProject_def Let_def remove_tree_def is_under_def IsNotExist_def WrapError_def

lemma list_all_filter_neq: "P x \<Longrightarrow> list_all P (filter (\<lambda>r. r \<noteq> x) xs) = list_all P xs"
  by (induction xs) auto

lemma CheckProfileImpl_flags:
  "CheckProfileImpl (map (\<lambda>f. f\<lparr>IsDisabled := d f\<rparr>) fs) w = CheckProfileImpl fs w"
  by (induction fs arbitrary: w) (simp_all add: Let_def split: option.splits)

lemma CheckProfileImpl_first_failure:
  "fst (CheckProfileImpl fs w) =
     (case List.find (\<lambda>f. Check f \<noteq> None) fs of
        None \<Rightarrow> None
      | Some f \<Rightarrow> map_option (\<lambda>e. WrapErrorf e ''Filter check failed.'' []) (Check f))"
  by (induction fs arbitrary: w) (auto simp: Let_def split: option.splits)

lemma RunProfileImpl_disabled_opaque:
  "RunProfileImpl (map (\<lambda>f. if IsDisabled f then f\<lparr>Run := x f, RunEffect := y f\<rparr> else f) fs) w
     = RunProfileImpl fs w"
  by (induction fs arbitrary: w) (simp_all add: Let_def split: option.splits)

lemma attempted_not_disabled: "list_all (\<lambda>f. \<not> IsDisabled f) (attempted fs)"
  by (induction fs) auto

lemma check_ids_CheckProfileImpl:
  "check_ids (events_since w (snd (CheckProfileImpl fs w))) = map GetId (checked fs)"
proof -
  have "CheckProfileImpl fs w = (fst (CheckProfileImpl fs w), snd (CheckProfileImpl fs w))" by simp
  from CheckProfileImpl_trace[OF this] show ?thesis
    by (simp add: events_since_def check_ids_map)
qed

lemma run_ids_RunProfileImpl:
  "run_ids (events_since w (snd (RunProfileImpl fs w))) = map GetId (attempted fs)"
proof -
  have "RunProfileImpl fs w = (fst (RunProfileImpl fs w), snd (RunProfileImpl fs w))" by simp
  from RunProfileImpl_trace[OF this] show ?thesis
    by (auto simp: events_since_def)
qed

lemma check_failure_only_checks:
  assumes ld: "LoadConfigAsMap_err env = None" "ConfigFromObject_result env = Inr cfg"
      and bad: "\<not> list_all (\<lambda>f. Check f = None) (Filters (lookup_Profile cfg profileName))"
  shows "fst (RunProfile env profileName w) \<noteq> None \<and>
         only_phase PhaseCheck (events_since w (snd (RunProfile env profileName w)))"
proof -
  obtain r w' where run: "RunProfile env profileName w = (r, w')"
    by (cases "RunProfile env profileName w")
  from RunProfile_exits[OF ld run] bad
  have "r \<noteq> None" and
    "trace w' = trace w @ map (\<lambda>f. CallCheck (GetId f)) (checked (Filters (lookup_Profile cfg profileName)))"
    by auto
  then show ?thesis
    using run by (simp add: events_since_def only_phase_check_map)
qed

lemma phases_export_events: "phases export_events = [PhaseExport]"
  by (simp add: export_events_def phases_def List.map_filter_def)

lemma phases_cleanup_events: "phases cleanup_events = [PhaseCleanup]"
  by (simp add: cleanup_events_def phases_def List.map_filter_def)

lemma ids_export_cleanup:
  "check_ids export_events = []" "run_ids export_events = []"
  "check_ids cleanup_events = []" "run_ids cleanup_events = []"
  by (simp_all add: export_events_def cleanup_events_def)

lemma sorted_blocks:
  assumes "set a \<subseteq> {PhaseCheck}" "set b \<subseteq> {PhaseStage}" "set c \<subseteq> {PhaseRun}"
      and "d = [] \<or> d = [PhaseExport] \<or> d = [PhaseExport, PhaseCleanup]"
  shows "sorted (map phase_rank (a @ b @ c @ d))"
proof -
  have sa: "sorted (map phase_rank xs)" if "set xs \<subseteq> {ph}" for xs ph
    using that by (induction xs) auto
  have ra: "\<forall>x\<in>set a. phase_rank x = 0" using assms(1) by auto
  have rb: "\<forall>x\<in>set b. phase_rank x = 1" using assms(2) by auto
  have rc: "\<forall>x\<in>set c. phase_rank x = 2" using assms(3) by auto
  have rd: "\<forall>x\<in>set d. 3 \<le> phase_rank x" using assms(4) by auto
  have sd: "sorted (map phase_rank d)" using assms(4) by auto
  show ?thesis
    using sa[OF assms(1)] sa[OF assms(2)] sa[OF assms(3)] sd ra rb rc rd
    by (auto simp: sorted_append)
qed

lemma RunProfile_events:
  assumes ld: "LoadConfigAsMap_err env = None" "ConfigFromObject_result env = Inr cfg"
    and run: "RunProfile env profileName w = (r, w')"
  defines "fs \<equiv> Filters (lookup_Profile cfg profileName)"
  defines "checks_ok \<equiv> list_all (\<lambda>f. Check f = None) fs"
  defines "runs_ok \<equiv> list_all (\<lambda>f. IsDisabled f \<or> Run f = None) fs"
  defines "es \<equiv> events_since w w'"
  shows "\<exists>pc ps pr px.
           phases es = pc @ ps @ pr @ px \<and>
           set pc \<subseteq> {PhaseCheck} \<and> set ps \<subseteq> {PhaseStage} \<and> set pr \<subseteq> {PhaseRun} \<and>
           check_ids es = map GetId (checked fs) \<and>
           ((\<not> checks_ok \<and> r \<noteq> None \<and> ps = [] \<and> pr = [] \<and> px = [] \<and> run_ids es = []) \<or>
            (checks_ok \<and> r \<noteq> None \<and> fst (SetupTmpFiles env cfg w) \<noteq> None \<and> ps \<noteq> [] \<and> pr = [] \<and> px = []
               \<and> run_ids es = []) \<or>
            (checks_ok \<and> fst (SetupTmpFiles env cfg w) = None \<and> ps \<noteq> [] \<and>
               run_ids es = map GetId (attempted fs) \<and>
               ((\<not> runs_ok \<and> r \<noteq> None \<and> px = []) \<or>
                (runs_ok \<and> ExportProject_err env \<noteq> None \<and> r \<noteq> None \<and> px = [PhaseExport]) \<or>
                (runs_ok \<and> ExportProject_err env = None \<and> px = [PhaseExport, PhaseCleanup] \<and>
                   last es = SysRemoveAll ''.regolith/tmp/data'' \<and>
                   (r = None \<longleftrightarrow> RemoveAll_err env ''.regolith/tmp/data'' = None) \<and>
                   (r = None \<longrightarrow> workspace w' ''.regolith/tmp/data'' = None)))))"
proof -
  let ?ce = "map (\<lambda>f. CallCheck (GetId f)) (checked fs)"
  note ex = RunProfile_exits[OF ld run, folded fs_def, folded checks_ok_def runs_ok_def]
  from ex obtain se re xe where
    t: "trace w' = trace w @ ?ce @ se @ re @ xe"
    and se: "only_phase PhaseStage se" and re: "only_phase PhaseRun re"
    and d: "(\<not> checks_ok \<and> r \<noteq> None \<and> se = [] \<and> re = [] \<and> xe = []) \<or>
            (checks_ok \<and> r \<noteq> None \<and> fst (SetupTmpFiles env cfg w) \<noteq> None \<and>
               PhaseStage \<in> set (phases se) \<and> re = [] \<and> xe = []) \<or>
            (checks_ok \<and> fst (SetupTmpFiles env cfg w) = None \<and>
               PhaseStage \<in> set (phases se) \<and> run_ids re = map GetId (attempted fs) \<and>
               ((\<not> runs_ok \<and> r \<noteq> None \<and> xe = []) \<or>
                (runs_ok \<and> ExportProject_err env \<noteq> None \<and> r \<noteq> None \<and> xe = export_events) \<or>
                (runs_ok \<and> ExportProject_err env = None \<and> xe = export_events @ cleanup_events \<and>
                   r = map_option (\<lambda>e. WrapError (OSError e) ''Unable to clean .regolith/tmp/data directory.'')
                         (RemoveAll_err env ''.regolith/tmp/data'') \<and>
                   (r = None \<longrightarrow> workspace w' ''.regolith/tmp/data'' = None))))"
    apply (elim exE conjE)
    apply (rule that)
    apply assumption+
    done
  have es: "es = ?ce @ se @ re @ xe"
    using t by (simp add: es_def events_since_def)
  have pc: "set (phases ?ce) \<subseteq> {PhaseCheck}"
    by (rule only_phase_phases[OF only_phase_check_map])
  have ps: "set (phases se) \<subseteq> {PhaseStage}" by (rule only_phase_phases[OF se])
  have pr: "set (phases re) \<subseteq> {PhaseRun}" by (rule only_phase_phases[OF re])
  have ids: "check_ids se = []" "check_ids re = []" "run_ids se = []" "run_ids ?ce = []"
    using only_phase_check_ids[OF se] only_phase_check_ids[OF re] only_phase_run_ids[OF se]
      only_phase_run_ids[OF only_phase_check_map]
    by simp_all
  have lastc: "last (xs @ export_events @ cleanup_events) = SysRemoveAll ''.regolith/tmp/data''" for xs
    by (simp add: cleanup_events_def)
  have shape: "phases es = phases ?ce @ phases se @ phases re @ phases xe"
    by (simp add: es phases_append)
  have cids: "check_ids es = map GetId (checked fs) @ check_ids xe"
    by (simp add: es check_ids_append check_ids_map ids)
  have rids: "run_ids es = run_ids re @ run_ids xe"
    by (simp add: es run_ids_append ids)
  from d show ?thesis
  proof (elim disjE conjE, goal_cases)
    case 1
    note check = 1
    show ?thesis
      apply (rule exI[of _ "phases ?ce"], rule exI[of _ "[]"], rule exI[of _ "[]"], rule exI[of _ "[]"])
      using check pc shape cids rids by (simp add: phases_def)
  next
    case 2
    note stage = 2
    then have "phases se \<noteq> []" by auto
    then show ?thesis
      apply - 
      apply (rule exI[of _ "phases ?ce"], rule exI[of _ "phases se"], rule exI[of _ "[]"], rule exI[of _ "[]"])
      using stage pc ps shape cids rids by (simp add: phases_def)
  next
    case 3
    note run = 3
    then have "phases se \<noteq> []" by auto
    then show ?thesis
      apply -
      apply (rule exI[of _ "phases ?ce"], rule exI[of _ "phases se"], rule exI[of _ "phases re"], rule exI[of _ "[]"])
      using run pc ps pr shape cids rids by (simp add: phases_def)
  next
    case 4
    note export = 4
    then have "phases se \<noteq> []" by auto
    then show ?thesis
      apply -
      apply (rule exI[of _ "phases ?ce"], rule exI[of _ "phases se"], rule exI[of _ "phases re"],
             rule exI[of _ "[PhaseExport]"])
      using export pc ps pr shape cids rids
      by (simp add: phases_export_events ids_export_cleanup)
  next
    case 5
    note cleanup = 5
    then have ne: "phases se \<noteq> []" by auto
    from cleanup have xe: "xe = export_events @ cleanup_events" by simp
    have l: "last es = SysRemoveAll ''.regolith/tmp/data''"
      using xe by (simp add: es cleanup_events_def)
    from cleanup have "r = map_option (\<lambda>e. WrapError (OSError e) ''Unable to clean .regolith/tmp/data directory.'')
               (RemoveAll_err env ''.regolith/tmp/data'')" by simp
    then have rn: "r = None \<longleftrightarrow> RemoveAll_err env ''.regolith/tmp/data'' = None"
      by simp
    from cleanup have gone: "r = None \<longrightarrow> workspace w' ''.regolith/tmp/data'' = None" by simp
    from cleanup have c5: "checks_ok" "fst (SetupTmpFiles env cfg w) = None"
        "run_ids re = map GetId (attempted fs)" "runs_ok" "ExportProject_err env = None"
      by simp_all
    show ?thesis
      apply (rule exI[of _ "phases ?ce"], rule exI[of _ "phases se"], rule exI[of _ "phases re"],
             rule exI[of _ "[PhaseExport, PhaseCleanup]"])
      using c5 xe gone ne l rn pc ps pr shape cids rids
      by (simp add: phases_append phases_export_events phases_cleanup_events ids_export_cleanup
            check_ids_append run_ids_append)
  qed
qed

lemma SetupTmpFiles_ok_iff:
  "fst (SetupTmpFiles env cfg w) = None \<longleftrightarrow>
     RemoveAll_err env ''.regolith/tmp'' = None \<and> MkdirAll_err env ''.regolith/tmp'' = None \<and>
     list_all (\<lambda>(p, s, d). fst (setup_tmp_directory env p s d w0) = None) (roles cfg)"
  by (simp add: SetupTmpFiles_result[of env cfg w w0] roles_def split: option.splits)

lemma staging_failure_runs_nothing:
  assumes ld: "LoadConfigAsMap_err env = None" "ConfigFromObject_result env = Inr cfg"
      and bad: "fst (SetupTmpFiles env cfg w) \<noteq> None"
  shows "fst (RunProfile env profileName w) \<noteq> None \<and>
         PhaseRun \<notin> set (phases (events_since w (snd (RunProfile env profileName w)))) \<and>
         run_ids (events_since w (snd (RunProfile env profileName w))) = []"
proof -
  obtain r w' where run: "RunProfile env profileName w = (r, w')"
    by (cases "RunProfile env profileName w")
  from RunProfile_events[OF ld run] bad
  have "r \<noteq> None \<and> PhaseRun \<notin> set (phases (events_since w w')) \<and>
        run_ids (events_since w w') = []"
    by (elim exE conjE disjE) auto
  then show ?thesis using run by simp
qed

section \<open>Lemmas about \<^verbatim>\<open>SubfilterCollection\<close>\<close>






section \<open>Lemmas about the commands\<close>

lemmas cmd_defs = Let_def go_return_def deferred_unlock_def start_logging_def cmd_log_def record_event_def
  LoadConfigAsMap_def dataPathFromConfigMap_def filterDefinitionsFromConfigMap_def firstErr_def

lemma start_logging_trace:
  "cmd_trace (start_logging env debug msg s) = cmd_trace s @ start_events env debug msg"
  by (simp add: start_logging_def start_events_def cmd_log_def record_event_def Let_def)

lemma start_logging_frame:
  "config_json (start_logging env debug msg s) = config_json s"
  "outcome (start_logging env debug msg s) = outcome s"
  "sessionLockErr (start_logging env debug msg s) = sessionLockErr s"
  by (simp_all add: start_logging_def cmd_log_def record_event_def Let_def)

lemma find_installed_find:
  "find_installed defs args = map_option name (List.find (\<lambda>p. defs (name p) \<noteq> None) args)"
  by (induction args) (auto split: option.splits)

lemma find_installed_Some:
  "p \<in> set args \<Longrightarrow> defs (name p) \<noteq> None \<Longrightarrow> \<exists>p0. List.find (\<lambda>p. defs (name p) \<noteq> None) args = Some p0"
  by (cases "List.find (\<lambda>p. defs (name p) \<noteq> None) args") (auto simp: find_None_iff)

lemma download_frame:
  "download_definitions env args acc s = (r, s') \<Longrightarrow>
   config_json s' = config_json s \<and> outcome s' = outcome s \<and> sessionLockErr s' = sessionLockErr s \<and>
   (\<exists>es. cmd_trace s' = cmd_trace s @ es)"
proof (induction args arbitrary: acc s)
  case Nil
  then show ?case by simp
next
  case (Cons p ps)
  show ?case
  proof (cases "FilterDefinitionFromTheInternet env (url p) (name p) (version p)")
    case (Inl e)
    with Cons.prems show ?thesis by (auto simp: record_event_def)
  next
    case (Inr d)
    with Cons.prems Cons.IH show ?thesis
      by (fastforce simp: record_event_def)
  qed
qed

lemma download_untouched:
  "download_definitions env args acc s = (Inr m, s') \<Longrightarrow> n \<notin> name ` set args \<Longrightarrow> m n = acc n"
proof (induction args arbitrary: acc s)
  case Nil
  then show ?case by simp
next
  case (Cons p ps)
  then show ?case
    by (cases "FilterDefinitionFromTheInternet env (url p) (name p) (version p)") auto
qed

lemma download_entry:
  "download_definitions env args acc s = (Inr m, s') \<Longrightarrow> distinct (map name args) \<Longrightarrow>
   p \<in> set args \<Longrightarrow>
   \<exists>d. FilterDefinitionFromTheInternet env (url p) (name p) (version p) = Inr d \<and>
       m (name p) = Some (InstalledEntry
         (if version p = ''HEAD'' \<or> version p = ''latest'' then d\<lparr>Version := version p\<rparr> else d))"
proof (induction args arbitrary: acc s)
  case Nil
  then show ?case by simp
next
  case (Cons q qs)
  from Cons.prems(1) obtain d where
    d: "FilterDefinitionFromTheInternet env (url q) (name q) (version q) = Inr d"
    by (cases "FilterDefinitionFromTheInternet env (url q) (name q) (version q)") auto
  let ?acc = "acc(name q \<mapsto> InstalledEntry
                (if version q = ''HEAD'' \<or> version q = ''latest'' then d\<lparr>Version := version q\<rparr> else d))"
  let ?s = "record_event (CallFilterDefinitionFromTheInternet (url q) (name q) (version q)) s"
  from Cons.prems(1) d have rest: "download_definitions env qs ?acc ?s = (Inr m, s')"
    by simp
  show ?case
  proof (cases "p = q")
    case True
    from Cons.prems(2) have "name q \<notin> name ` set qs" by auto
    from download_untouched[OF rest this] d True show ?thesis by simp
  next
    case False
    with Cons.prems have "p \<in> set qs" "distinct (map name qs)" by auto
    from Cons.IH[OF rest this(2) this(1)] show ?thesis .
  qed
qed

lemma Install_reaches_lock:
  assumes "parseInstallFilterArgs env filters = Inr parsedArgs"
      and "LoadConfigAsMap_error env = None"
      and "DataPathProperty (config_json s) = Some dataPath"
      and "FilterDefinitionsProperty (config_json s) = Some defs"
      and "GetDotRegolith env = Inr dotRegolithPath"
      and "aquireSessionLock env dotRegolithPath = None"
  shows "Install env filters force debug s =
     deferred_unlock env
       (Install_locked env parsedArgs (config_json s) dataPath defs dotRegolithPath force
          ((record_event (CallAquireSessionLock dotRegolithPath)
              (start_logging env debug ''Installing filters...'' s))\<lparr>sessionLockErr := None\<rparr>))"
  using assms
  by (simp add: Install_def LoadConfigAsMap_def dataPathFromConfigMap_def
      filterDefinitionsFromConfigMap_def)

lemma Install_locked_refused:
  assumes "\<not> force" "find_installed defs parsedArgs = Some n"
  shows "deferred_unlock env (Install_locked env parsedArgs config dataPath defs dotRegolithPath force s)
     = s\<lparr>outcome := Returned (Some (already_installed n)),
          cmd_trace := cmd_trace s @ [CallUnlockSession],
          sessionLockErr := unlockSession env\<rparr>"
  using assms by (simp add: Install_locked_def go_return_def deferred_unlock_def record_event_def)

lemma Install_refused_early:
  assumes "\<not> force" "parseInstallFilterArgs env filters = Inr parsedArgs"
      and "FilterDefinitionsProperty (config_json s) = Some defs"
      and "find_installed defs parsedArgs = Some n"
  shows "(\<exists>err. outcome (Install env filters force debug s) = Returned (Some err)) \<and>
         config_json (Install env filters force debug s) = config_json s \<and>
         list_all (\<lambda>e. \<not> installing_event e) (cmd_events_since s (Install env filters force debug s))"
proof -
  let ?s1 = "start_logging env debug ''Installing filters...'' s"
  have ev1: "list_all (\<lambda>e. \<not> installing_event e) (start_events env debug ''Installing filters...'')"
    by (simp add: start_events_def)
  have base: "cmd_trace ?s1 = cmd_trace s @ start_events env debug ''Installing filters...''"
    by (rule start_logging_trace)
  note fr = start_logging_frame[of env debug "''Installing filters...''" s]
  show ?thesis
  proof (cases "LoadConfigAsMap_error env = None \<and> DataPathProperty (config_json s) \<noteq> None \<and>
                (\<exists>d. GetDotRegolith env = Inr d \<and> aquireSessionLock env d = None)")
    case True
    then obtain dataPath d where
      h: "LoadConfigAsMap_error env = None" "DataPathProperty (config_json s) = Some dataPath"
         "GetDotRegolith env = Inr d" "aquireSessionLock env d = None"
      by auto
    show ?thesis
      unfolding Install_reaches_lock[OF assms(2) h(1) h(2) assms(3) h(3) h(4)]
        Install_locked_refused[OF assms(1) assms(4)]
      using ev1 by (simp add: cmd_events_since_def record_event_def base fr)
  next
    case False
    then show ?thesis
      using assms(2,3) ev1
      by (auto simp: Install_def LoadConfigAsMap_def dataPathFromConfigMap_def
            filterDefinitionsFromConfigMap_def go_return_def cmd_events_since_def record_event_def
            base fr
          split: option.splits sum.splits)
  qed
qed

lemma deferred_unlock_frame:
  "outcome (deferred_unlock env s) = outcome s"
  "config_json (deferred_unlock env s) = config_json s"
  by (simp_all add: deferred_unlock_def record_event_def split: outcome.splits)

lemma Install_locked_success:
  "outcome (Install_locked env args config dataPath defs dot force s) = Returned None \<Longrightarrow>
   \<exists>m s1. download_definitions env args Map.empty s = (Inr m, s1) \<and>
     config_json (Install_locked env args config dataPath defs dot force s)
       = config\<lparr>FilterDefinitionsProperty := Some (defs ++ m)\<rparr>"
  by (auto simp: Install_locked_def go_return_def cmd_log_def record_event_def Let_def
      split: option.splits sum.splits prod.splits if_splits)

lemma Install_success:
  assumes p: "parseInstallFilterArgs env filters = Inr parsedArgs"
      and ok: "outcome (Install env filters force debug s) = Returned None"
  shows "\<exists>defs m s0 s1. FilterDefinitionsProperty (config_json s) = Some defs \<and>
           download_definitions env parsedArgs Map.empty s0 = (Inr m, s1) \<and>
           config_json (Install env filters force debug s)
             = (config_json s)\<lparr>FilterDefinitionsProperty := Some (defs ++ m)\<rparr>"
proof -
  have h1: "LoadConfigAsMap_error env = None"
    using ok p by (auto simp: Install_def LoadConfigAsMap_def go_return_def split: option.splits)
  obtain dataPath where h2: "DataPathProperty (config_json s) = Some dataPath"
    using ok p h1
    by (cases "DataPathProperty (config_json s)")
       (auto simp: Install_def LoadConfigAsMap_def dataPathFromConfigMap_def go_return_def)
  obtain defs where h3: "FilterDefinitionsProperty (config_json s) = Some defs"
    using ok p h1 h2
    by (cases "FilterDefinitionsProperty (config_json s)")
       (auto simp: Install_def LoadConfigAsMap_def dataPathFromConfigMap_def
          filterDefinitionsFromConfigMap_def go_return_def)
  obtain dot where h4: "GetDotRegolith env = Inr dot"
    using ok p h1 h2 h3
    by (cases "GetDotRegolith env")
       (auto simp: Install_def LoadConfigAsMap_def dataPathFromConfigMap_def
          filterDefinitionsFromConfigMap_def go_return_def)
  have h5: "aquireSessionLock env dot = None"
    using ok p h1 h2 h3 h4
    by (cases "aquireSessionLock env dot")
       (auto simp: Install_def LoadConfigAsMap_def dataPathFromConfigMap_def
          filterDefinitionsFromConfigMap_def go_return_def)
  note eq = Install_reaches_lock[OF p h1 h2 h3 h4 h5, of force debug]
  from ok have "outcome (Install_locked env parsedArgs (config_json s) dataPath defs dot force
          ((record_event (CallAquireSessionLock dot)
              (start_logging env debug ''Installing filters...'' s))\<lparr>sessionLockErr := None\<rparr>))
        = Returned None"
    by (simp add: eq deferred_unlock_frame)
  from Install_locked_success[OF this] h3 show ?thesis
    by (auto simp: eq deferred_unlock_frame)
qed

lemmas install_eval = Install_def Install_locked_def cmd_defs resolve_from_spec_def

lemma watch_loop_changes:
  "(\<forall>j<fuel. AwaitInterruption_result env (k + j) = FileChange) \<Longrightarrow>
   watch_loop env pn fuel k s =
     s\<lparr>outcome := StillWatching,
       cmd_trace := cmd_trace s @
         concat (map (\<lambda>j. iteration_events env pn (k + j) @ restart_events) [0..<fuel])\<rparr>"
proof (induction fuel arbitrary: k s)
  case 0
  then show ?case by simp
next
  case (Suc fuel)
  from Suc.prems have here: "AwaitInterruption_result env k = FileChange"
    by (metis add.right_neutral zero_less_Suc)
  from Suc.prems have later: "\<forall>j<fuel. AwaitInterruption_result env (Suc k + j) = FileChange"
    by (metis Suc_less_eq add_Suc_shift)
  have shift: "map (\<lambda>j. iteration_events env pn (k + j) @ restart_events) [0..<Suc fuel]
      = (iteration_events env pn k @ restart_events) #
        map (\<lambda>j. iteration_events env pn (Suc k + j) @ restart_events) [0..<fuel]"
    by (simp add: upt_conv_Cons map_Suc_upt[symmetric] del: upt_Suc)
  show ?case
    unfolding shift
    by (simp add: here Suc.IH[OF later] Let_def cmd_log_def record_event_def iteration_events_def
          restart_events_def split: option.splits)
qed

lemma watch_loop_signal:
  "m < fuel \<Longrightarrow> AwaitInterruption_result env (k + m) = TerminationSignal \<Longrightarrow>
   (\<forall>j<m. AwaitInterruption_result env (k + j) = FileChange) \<Longrightarrow>
   watch_loop env pn fuel k s =
     s\<lparr>outcome := ProcessExited,
       cmd_trace := cmd_trace s @
         concat (map (\<lambda>j. iteration_events env pn (k + j) @ restart_events) [0..<m]) @
         iteration_events env pn (k + m)\<rparr>"
proof (induction fuel arbitrary: k m s)
  case 0
  then show ?case by simp
next
  case (Suc fuel)
  show ?case
  proof (cases m)
    case 0
    with Suc.prems show ?thesis
      by (simp add: Let_def cmd_log_def record_event_def iteration_events_def split: option.splits)
  next
    case (Suc m')
    from Suc.prems(3) Suc have here: "AwaitInterruption_result env k = FileChange"
      by (metis add.right_neutral zero_less_Suc)
    have m': "m' < fuel" using Suc.prems(1) Suc by simp
    have sig: "AwaitInterruption_result env (Suc k + m') = TerminationSignal"
      using Suc.prems(2) Suc by simp
    have later: "\<forall>j<m'. AwaitInterruption_result env (Suc k + j) = FileChange"
      using Suc.prems(3) Suc by (metis Suc_less_eq add_Suc_shift)
    have shift: "map (\<lambda>j. iteration_events env pn (k + j) @ restart_events) [0..<Suc m']
        = (iteration_events env pn k @ restart_events) #
          map (\<lambda>j. iteration_events env pn (Suc k + j) @ restart_events) [0..<m']"
      by (simp add: upt_conv_Cons map_Suc_upt[symmetric] del: upt_Suc)
    show ?thesis
      unfolding Suc shift
      by (simp add: here Suc.IH[OF m' sig later] Let_def cmd_log_def record_event_def
            iteration_events_def restart_events_def split: option.splits)
  qed
qed

lemma watch_loop_never_returns:
  "outcome (watch_loop env pn fuel k s) = StillWatching \<or>
   outcome (watch_loop env pn fuel k s) = ProcessExited"
  by (induction fuel arbitrary: k s) (auto simp: Let_def split: interruption.splits)

lemma runOrWatch_reaches_loop:
  assumes "LoadConfigAsMap_error env = None"
      and "ConfigFromObject env (Some (config_json s)) = Inr config"
      and "Profiles config (default_profile profileName) = Some profile"
      and "GetDotRegolith env = Inr dotRegolithPath"
      and "CreateDirectoryIfNotExists env dotRegolithPath = None"
      and "aquireSessionLock env dotRegolithPath = None"
      and "CheckProfileImpl_result env profile (default_profile profileName) = None"
  shows "runOrWatch env fuel profileName debug True s =
     deferred_unlock env
       (watch_loop env (default_profile profileName) fuel 0
          (s\<lparr>sessionLockErr := None,
             cmd_trace := cmd_trace s @
               watch_prefix debug dotRegolithPath (default_profile profileName)\<rparr>))"
  using assms
  by (simp add: runOrWatch_def runOrWatch_locked_def LoadConfigAsMap_def record_event_def
      watch_prefix_def)

lemma deferred_unlock_not_returned:
  "outcome s = StillWatching \<or> outcome s = ProcessExited \<Longrightarrow> deferred_unlock env s = s"
  by (auto simp: deferred_unlock_def)

lemmas example_cmd_defs = example_cmd_env_def example_args_def example_cmd_state_def
  example_config_map_def example_remote_def example_config_def example_filters_def
  example_runner_def

lemmas command_defs = Install_def Install_locked_def InstallAll_def Update_def UpdateAll_def
  locked_command_def load_config_def runOrWatch_def runOrWatch_locked_def Tool_def Tool_locked_def
  default_profile_def cmd_defs resolve_from_spec_def

lemma runOrWatch_unknown_profile:
  assumes "LoadConfigAsMap_error env = None"
      and "ConfigFromObject env (Some (config_json s)) = Inr config"
      and "Profiles config (default_profile profileName) = None"
  shows "runOrWatch env fuel profileName debug watch s =
     s\<lparr>outcome := Returned (Some (WrappedErrorf ''Profile %q does not exist in the configuration.''
                                   [AStr (default_profile profileName)])),
       cmd_trace := cmd_trace s @ [InitLogging debug]\<rparr>"
  using assms by (simp add: runOrWatch_def LoadConfigAsMap_def go_return_def record_event_def)

lemma download_unlock_irrelevant:
  "download_definitions (env\<lparr>unlockSession := x\<rparr>) args acc s = download_definitions env args acc s"
  by (induction args arbitrary: acc s) (simp_all split: sum.splits)

lemma watch_loop_unlock_irrelevant:
  "watch_loop (env\<lparr>unlockSession := x\<rparr>) pn fuel k s = watch_loop env pn fuel k s"
  by (induction fuel arbitrary: k s) (simp_all add: Let_def split: interruption.splits)

lemma start_logging_unlock_irrelevant:
  "start_logging (env\<lparr>unlockSession := x\<rparr>) debug msg s = start_logging env debug msg s"
  by (simp add: start_logging_def Let_def)

lemma Install_locked_unlock_irrelevant:
  "Install_locked (env\<lparr>unlockSession := x\<rparr>) args config dataPath defs dot force s
     = Install_locked env args config dataPath defs dot force s"
  by (simp add: Install_locked_def download_unlock_irrelevant Let_def
      split: option.splits sum.splits prod.splits)

lemma locked_command_unlock_irrelevant:
  "outcome (locked_command (env\<lparr>unlockSession := x\<rparr>) body s) = outcome (locked_command env body s)"
  by (simp add: locked_command_def load_config_def LoadConfigAsMap_def deferred_unlock_frame
      go_return_def Let_def split: sum.splits option.splits)

lemma release_error_never_returned:
  "outcome (Install (env\<lparr>unlockSession := x\<rparr>) filters force debug s)
     = outcome (Install env filters force debug s) \<and>
   outcome (InstallAll (env\<lparr>unlockSession := x\<rparr>) force debug s)
     = outcome (InstallAll env force debug s) \<and>
   outcome (Update (env\<lparr>unlockSession := x\<rparr>) filters debug s)
     = outcome (Update env filters debug s) \<and>
   outcome (UpdateAll (env\<lparr>unlockSession := x\<rparr>) debug s)
     = outcome (UpdateAll env debug s) \<and>
   outcome (runOrWatch (env\<lparr>unlockSession := x\<rparr>) fuel profileName debug watch s)
     = outcome (runOrWatch env fuel profileName debug watch s) \<and>
   outcome (Tool (env\<lparr>unlockSession := x\<rparr>) filterName filterArgs debug s)
     = outcome (Tool env filterName filterArgs debug s)"
proof (intro conjI)
  show "outcome (Install (env\<lparr>unlockSession := x\<rparr>) filters force debug s)
     = outcome (Install env filters force debug s)"
    by (simp add: Install_def LoadConfigAsMap_def deferred_unlock_frame go_return_def
        Install_locked_unlock_irrelevant start_logging_unlock_irrelevant
        split: sum.splits option.splits)
  show "outcome (InstallAll (env\<lparr>unlockSession := x\<rparr>) force debug s)
     = outcome (InstallAll env force debug s)"
    by (simp add: InstallAll_def locked_command_unlock_irrelevant start_logging_unlock_irrelevant)
  show "outcome (Update (env\<lparr>unlockSession := x\<rparr>) filters debug s)
     = outcome (Update env filters debug s)"
    by (simp add: Update_def locked_command_unlock_irrelevant start_logging_unlock_irrelevant
        go_return_def)
  show "outcome (UpdateAll (env\<lparr>unlockSession := x\<rparr>) debug s)
     = outcome (UpdateAll env debug s)"
    by (simp add: UpdateAll_def locked_command_unlock_irrelevant start_logging_unlock_irrelevant)
  show "outcome (runOrWatch (env\<lparr>unlockSession := x\<rparr>) fuel profileName debug watch s)
     = outcome (runOrWatch env fuel profileName debug watch s)"
    by (simp add: runOrWatch_def runOrWatch_locked_def LoadConfigAsMap_def deferred_unlock_frame
        go_return_def watch_loop_unlock_irrelevant Let_def
        split: sum.splits option.splits)
  show "outcome (Tool (env\<lparr>unlockSession := x\<rparr>) filterName filterArgs debug s)
     = outcome (Tool env filterName filterArgs debug s)"
    by (simp add: Tool_def Tool_locked_def LoadConfigAsMap_def deferred_unlock_frame
        go_return_def Let_def split: sum.splits option.splits)
qed

section \<open>The pipeline claims\<close>

text \<open>
  Claim C2.  The Check loop looks at no disabled flag: changing the flags of the runners
  changes neither its result nor its trace.  It calls \<open>Check\<close> on the runners in order,
  up to and including the first whose check fails (on every runner when none fails),
  and returns that first failure, wrapped.  The Run loop calls \<open>Run\<close> only on runners
  that are not disabled, and what a disabled runner's \<open>Run\<close> would return or do to the
  workspace has no bearing on the loop.  Hence, in \<^verbatim>\<open>RunProfile\<close>, a disabled filter whose
  check fails makes the pipeline fail with nothing but Check events in the trace.
\<close>

theorem check_covers_disabled_run_skips_disabled:
  "CheckProfileImpl (map (\<lambda>f. f\<lparr>IsDisabled := d f\<rparr>) fs) w = CheckProfileImpl fs w \<and>
   check_ids (events_since w (snd (CheckProfileImpl fs w))) = map GetId (checked fs) \<and>
   (list_all (\<lambda>f. Check f = None) fs \<longrightarrow> checked fs = fs) \<and>
   fst (CheckProfileImpl fs w) =
     (case List.find (\<lambda>f. Check f \<noteq> None) fs of
        None \<Rightarrow> None
      | Some f \<Rightarrow> map_option (\<lambda>e. WrapErrorf e ''Filter check failed.'' []) (Check f)) \<and>
   run_ids (events_since w (snd (RunProfileImpl fs w))) = map GetId (attempted fs) \<and>
   list_all (\<lambda>f. \<not> IsDisabled f) (attempted fs) \<and>
   RunProfileImpl (map (\<lambda>f. if IsDisabled f then f\<lparr>Run := x f, RunEffect := y f\<rparr> else f) fs) w
     = RunProfileImpl fs w \<and>
   (LoadConfigAsMap_err env = None \<and> ConfigFromObject_result env = Inr cfg \<and>
    g \<in> set (Filters (lookup_Profile cfg profileName)) \<and> IsDisabled g \<and> Check g \<noteq> None \<longrightarrow>
      fst (RunProfile env profileName w) \<noteq> None \<and>
      only_phase PhaseCheck (events_since w (snd (RunProfile env profileName w))))"
proof (intro conjI impI)
  assume a: "LoadConfigAsMap_err env = None \<and> ConfigFromObject_result env = Inr cfg \<and>
    g \<in> set (Filters (lookup_Profile cfg profileName)) \<and> IsDisabled g \<and> Check g \<noteq> None"
  then have bad: "\<not> list_all (\<lambda>f. Check f = None) (Filters (lookup_Profile cfg profileName))"
    by (auto simp: list_all_iff)
  from a check_failure_only_checks[OF _ _ bad, of env w]
  show "fst (RunProfile env profileName w) \<noteq> None"
    and "only_phase PhaseCheck (events_since w (snd (RunProfile env profileName w)))"
    by simp_all
qed (simp_all add: CheckProfileImpl_flags check_ids_CheckProfileImpl checked_all
      CheckProfileImpl_first_failure run_ids_RunProfileImpl attempted_not_disabled
      RunProfileImpl_disabled_opaque)

theorem check_covers_disabled_witness:
  "example_runner ''b'' True (Some (ExternalError ''python is not installed'')) None
     \<in> set (Filters (lookup_Profile (example_config example_filters_bad_check) ''default'')) \<and>
   check_ids (events_since example_world
     (snd (CheckProfileImpl example_filters_bad_check example_world))) = [''a'', ''b''] \<and>
   run_ids (events_since example_world
     (snd (RunProfileImpl example_filters example_world))) = [''a''] \<and>
   fst (RunProfile (example_env all_dirs example_filters_bad_check) ''default'' example_world) \<noteq> None \<and>
   only_phase PhaseCheck (events_since example_world
     (snd (RunProfile (example_env all_dirs example_filters_bad_check) ''default'' example_world)))"
  using check_covers_disabled_run_skips_disabled[where fs = example_filters_bad_check
      and w = example_world and env = "example_env all_dirs example_filters_bad_check"
      and cfg = "example_config example_filters_bad_check"
      and g = "example_runner ''b'' True (Some (ExternalError ''python is not installed'')) None"
      and profileName = "''default''"]
    check_covers_disabled_run_skips_disabled[where fs = example_filters and w = example_world]
  by (simp add: example_filters_bad_check_def example_defs lookup_Profile_def)

text \<open>
  Claim C3.  For a pipeline invocation whose configuration loads, the events of the run
  are ordered Check, Stage, Run, Export, Cleanup.  A Stage event occurs only if every
  check passed and \<open>Check\<close> was called on the whole collection; a Run event occurs only
  after a staging that succeeded; an Export event occurs only if every runner that is
  not disabled was run and none failed.  If some check fails the result is an error and
  only Check events occur; if some enabled runner's \<open>Run\<close> fails the result is an error
  and neither Export nor Cleanup occurs.  After an export that succeeded, the last event
  is the removal of \<^verbatim>\<open>.regolith/tmp/data\<close>, and when \<^verbatim>\<open>RunProfile\<close> returns \<^verbatim>\<open>nil\<close> that
  directory is gone from the workspace.
\<close>

theorem RunProfile_phase_order:
  assumes "LoadConfigAsMap_err env = None" and "ConfigFromObject_result env = Inr cfg"
      and "RunProfile env profileName w = (r, w')"
  shows "sorted (map phase_rank (phases (events_since w w'))) \<and>
     (PhaseStage \<in> set (phases (events_since w w')) \<longrightarrow>
        list_all (\<lambda>f. Check f = None) (Filters (lookup_Profile cfg profileName)) \<and>
        check_ids (events_since w w') = map GetId (Filters (lookup_Profile cfg profileName))) \<and>
     (PhaseRun \<in> set (phases (events_since w w')) \<longrightarrow>
        PhaseStage \<in> set (phases (events_since w w')) \<and> fst (SetupTmpFiles env cfg w) = None) \<and>
     (PhaseExport \<in> set (phases (events_since w w')) \<longrightarrow>
        PhaseStage \<in> set (phases (events_since w w')) \<and> fst (SetupTmpFiles env cfg w) = None \<and>
        list_all (\<lambda>f. IsDisabled f \<or> Run f = None) (Filters (lookup_Profile cfg profileName)) \<and>
        run_ids (events_since w w') =
          map GetId (filter (\<lambda>f. \<not> IsDisabled f) (Filters (lookup_Profile cfg profileName)))) \<and>
     (\<not> list_all (\<lambda>f. Check f = None) (Filters (lookup_Profile cfg profileName)) \<longrightarrow>
        r \<noteq> None \<and> set (phases (events_since w w')) \<subseteq> {PhaseCheck}) \<and>
     (\<not> list_all (\<lambda>f. IsDisabled f \<or> Run f = None) (Filters (lookup_Profile cfg profileName)) \<longrightarrow>
        r \<noteq> None \<and> PhaseExport \<notin> set (phases (events_since w w')) \<and>
        PhaseCleanup \<notin> set (phases (events_since w w'))) \<and>
     (PhaseExport \<in> set (phases (events_since w w')) \<and> ExportProject_err env = None \<longrightarrow>
        last (events_since w w') = SysRemoveAll ''.regolith/tmp/data'' \<and>
        (r = None \<longleftrightarrow> RemoveAll_err env ''.regolith/tmp/data'' = None)) \<and>
     (r = None \<longrightarrow>
        workspace w' ''.regolith/tmp/data'' = None \<and>
        last (events_since w w') = SysRemoveAll ''.regolith/tmp/data'' \<and>
        {PhaseStage, PhaseExport, PhaseCleanup} \<subseteq> set (phases (events_since w w')))"
proof -
  let ?fs = "Filters (lookup_Profile cfg profileName)"
  let ?es = "events_since w w'"
  from RunProfile_events[OF assms] obtain pc ps pr px where
    sh: "phases ?es = pc @ ps @ pr @ px"
    and pc: "set pc \<subseteq> {PhaseCheck}" and ps: "set ps \<subseteq> {PhaseStage}" and pr: "set pr \<subseteq> {PhaseRun}"
    and ci: "check_ids ?es = map GetId (checked ?fs)"
    and d: "(\<not> list_all (\<lambda>f. Check f = None) ?fs \<and> r \<noteq> None \<and> ps = [] \<and> pr = [] \<and> px = [] \<and> run_ids ?es = []) \<or>
            (list_all (\<lambda>f. Check f = None) ?fs \<and> r \<noteq> None \<and> fst (SetupTmpFiles env cfg w) \<noteq> None \<and> ps \<noteq> [] \<and> pr = [] \<and> px = []
               \<and> run_ids ?es = []) \<or>
            (list_all (\<lambda>f. Check f = None) ?fs \<and> fst (SetupTmpFiles env cfg w) = None \<and> ps \<noteq> [] \<and>
               run_ids ?es = map GetId (attempted ?fs) \<and>
               ((\<not> list_all (\<lambda>f. IsDisabled f \<or> Run f = None) ?fs \<and> r \<noteq> None \<and> px = []) \<or>
                (list_all (\<lambda>f. IsDisabled f \<or> Run f = None) ?fs \<and> ExportProject_err env \<noteq> None \<and> r \<noteq> None \<and> px = [PhaseExport]) \<or>
                (list_all (\<lambda>f. IsDisabled f \<or> Run f = None) ?fs \<and> ExportProject_err env = None \<and> px = [PhaseExport, PhaseCleanup] \<and>
                   last ?es = SysRemoveAll ''.regolith/tmp/data'' \<and>
                   (r = None \<longleftrightarrow> RemoveAll_err env ''.regolith/tmp/data'' = None) \<and>
                   (r = None \<longrightarrow> workspace w' ''.regolith/tmp/data'' = None))))"
    apply (elim exE conjE)
    apply (rule that)
    apply assumption+
    done
  have px: "px = [] \<or> px = [PhaseExport] \<or> px = [PhaseExport, PhaseCleanup]"
    using d by auto
  have srt: "sorted (map phase_rank (phases ?es))"
    unfolding sh by (rule sorted_blocks[OF pc ps pr px])
  have stage_in: "ps \<noteq> [] \<Longrightarrow> PhaseStage \<in> set (phases ?es)"
    using ps unfolding sh by (cases ps) auto
  from d show ?thesis
  proof (elim disjE conjE, goal_cases)
    case 1
    then show ?case using srt pc sh ci by auto
  next
    case 2
    then show ?case using srt pc ps sh ci stage_in by (auto simp: checked_all)
  next
    case 3
    then show ?case using srt pc ps pr sh ci stage_in by (auto simp: checked_all)
  next
    case 4
    then show ?case using srt pc ps pr sh ci stage_in by (auto simp: checked_all attempted_all)
  next
    case 5
    then show ?case using srt pc ps pr sh ci stage_in by (auto simp: checked_all attempted_all)
  qed
qed

theorem RunProfile_phase_order_witness:
  "LoadConfigAsMap_err (example_env all_dirs example_filters) = None \<and>
   ConfigFromObject_result (example_env all_dirs example_filters) = Inr (example_config example_filters) \<and>
   fst (RunProfile (example_env all_dirs example_filters) ''default'' example_world) = None \<and>
   sorted (map phase_rank (phases (events_since example_world
     (snd (RunProfile (example_env all_dirs example_filters) ''default'' example_world))))) \<and>
   workspace (snd (RunProfile (example_env all_dirs example_filters) ''default'' example_world))
     ''.regolith/tmp/data'' = None \<and>
   check_ids (events_since example_world
     (snd (RunProfile (example_env all_dirs example_filters) ''default'' example_world))) = [''a'', ''b''] \<and>
   run_ids (events_since example_world
     (snd (RunProfile (example_env all_dirs example_filters) ''default'' example_world))) = [''a'']"
proof -
  let ?env = "example_env all_dirs example_filters"
  have h1: "LoadConfigAsMap_err ?env = None" by (simp add: example_env_def)
  have h2: "ConfigFromObject_result ?env = Inr (example_config example_filters)"
    by (simp add: example_env_def)
  have h3: "RunProfile ?env ''default'' example_world =
      (fst (RunProfile ?env ''default'' example_world), snd (RunProfile ?env ''default'' example_world))"
    by simp
  have ev: "fst (RunProfile ?env ''default'' example_world) = None"
    by (simp add: example_defs run_defs)
  have fs: "Filters (lookup_Profile (example_config example_filters) ''default'') = example_filters"
    by (simp add: lookup_Profile_def example_config_def)
  show ?thesis
    using RunProfile_phase_order[OF h1 h2 h3] h1 h2 ev
    by (simp add: fs) (simp add: example_filters_def example_runner_def)
qed

text \<open>
  Claim C4.  For a configured (non-empty) source path: if \<^verbatim>\<open>os.Stat\<close> reports that it does
  not exist, the closure warns and creates the empty subdirectory
  \<^verbatim>\<open>.regolith/tmp/<short name>\<close> and returns \<^verbatim>\<open>nil\<close> (given that this \<^verbatim>\<open>MkdirAll\<close> itself
  succeeds), and after a successful \<^verbatim>\<open>SetupTmpFiles\<close> that subdirectory is there, empty,
  with the warning logged.  If the path is a regular file, the closure returns the
  "is not a directory" error, \<^verbatim>\<open>SetupTmpFiles\<close> fails, and \<^verbatim>\<open>RunProfile\<close> fails without
  calling \<open>Run\<close> on any filter.
\<close>

theorem absent_placeholder_file_fails:
  "(path \<noteq> [] \<and> Stat env path = Inl err \<and> IsNotExist err \<and>
    MkdirAll_err env (tmp_path short_name) = None \<and> workspace w (tmp_path short_name) = None \<longrightarrow>
      setup_tmp_directory env path short_name descriptive_name w =
        (None, w\<lparr>workspace := (workspace w)(tmp_path short_name \<mapsto> EmptyDir),
                 trace := trace w @ [SysStat path,
                    Log LWarn ''%s %q does not exist'' [AStr descriptive_name, AStr path],
                    SysMkdirAll (tmp_path short_name)]\<rparr>)) \<and>
   ((path, short_name, descriptive_name) \<in> set (roles cfg) \<and> path \<noteq> [] \<and>
    Stat env path = Inl err \<and> IsNotExist err \<and> SetupTmpFiles env cfg w = (None, w') \<longrightarrow>
      workspace w' (tmp_path short_name) = Some EmptyDir \<and>
      Log LWarn ''%s %q does not exist'' [AStr descriptive_name, AStr path]
        \<in> set (events_since w w')) \<and>
   (path \<noteq> [] \<and> Stat env path = Inr st \<and> \<not> IsDir st \<longrightarrow>
      setup_tmp_directory env path short_name descriptive_name w =
        (Some (WrappedErrorf ''%s path %q is not a directory'' [AStr descriptive_name, AStr path]),
         emit (SysStat path) w)) \<and>
   ((path, short_name, descriptive_name) \<in> set (roles cfg) \<and> path \<noteq> [] \<and>
    Stat env path = Inr st \<and> \<not> IsDir st \<longrightarrow>
      fst (SetupTmpFiles env cfg w) \<noteq> None \<and>
      (LoadConfigAsMap_err env = None \<and> ConfigFromObject_result env = Inr cfg \<longrightarrow>
         fst (RunProfile env profileName w) \<noteq> None \<and>
         PhaseRun \<notin> set (phases (events_since w (snd (RunProfile env profileName w)))) \<and>
         run_ids (events_since w (snd (RunProfile env profileName w))) = []))"
proof (intro conjI impI)
  assume "path \<noteq> [] \<and> Stat env path = Inl err \<and> IsNotExist err \<and>
    MkdirAll_err env (tmp_path short_name) = None \<and> workspace w (tmp_path short_name) = None"
  then show "setup_tmp_directory env path short_name descriptive_name w =
        (None, w\<lparr>workspace := (workspace w)(tmp_path short_name \<mapsto> EmptyDir),
                 trace := trace w @ [SysStat path,
                    Log LWarn ''%s %q does not exist'' [AStr descriptive_name, AStr path],
                    SysMkdirAll (tmp_path short_name)]\<rparr>)"
    by (simp add: setup_absent)
next
  assume a: "(path, short_name, descriptive_name) \<in> set (roles cfg) \<and> path \<noteq> [] \<and>
    Stat env path = Inl err \<and> IsNotExist err \<and> SetupTmpFiles env cfg w = (None, w')"
  then have role: "(path, short_name, descriptive_name) \<in> set (roles cfg)"
    and ok: "SetupTmpFiles env cfg w = (None, w')" by simp_all
  from SetupTmpFiles_role[OF ok role] obtain wa wb where
    g: "workspace wa (tmp_path short_name) = None"
    and pre: "\<exists>es. trace wa = trace w @ es"
    and s: "setup_tmp_directory env path short_name descriptive_name wa = (None, wb)"
    and e: "workspace w' (tmp_path short_name) = workspace wb (tmp_path short_name)"
    and post: "\<exists>es. trace w' = trace wb @ es"
    by blast
  have mk: "MkdirAll_err env (tmp_path short_name) = None"
    using s a by (auto simp: setup_tmp_directory_def os_Stat_def os_MkdirAll_def Let_def
        split: option.splits)
  have wb: "wb = wa\<lparr>workspace := (workspace wa)(tmp_path short_name \<mapsto> EmptyDir),
                 trace := trace wa @ [SysStat path,
                    Log LWarn ''%s %q does not exist'' [AStr descriptive_name, AStr path],
                    SysMkdirAll (tmp_path short_name)]\<rparr>"
    using s setup_absent[of path env err short_name wa descriptive_name] a mk g by simp
  show "workspace w' (tmp_path short_name) = Some EmptyDir"
    using e wb by simp
  from pre post wb obtain es1 es2 where
    "trace w' = trace w @ es1 @ [SysStat path,
        Log LWarn ''%s %q does not exist'' [AStr descriptive_name, AStr path],
        SysMkdirAll (tmp_path short_name)] @ es2"
    by auto
  then show "Log LWarn ''%s %q does not exist'' [AStr descriptive_name, AStr path]
        \<in> set (events_since w w')"
    by (simp add: events_since_def)
next
  assume "path \<noteq> [] \<and> Stat env path = Inr st \<and> \<not> IsDir st"
  then show "setup_tmp_directory env path short_name descriptive_name w =
        (Some (WrappedErrorf ''%s path %q is not a directory'' [AStr descriptive_name, AStr path]),
         emit (SysStat path) w)"
    by (simp add: setup_file)
next
  assume a: "(path, short_name, descriptive_name) \<in> set (roles cfg) \<and> path \<noteq> [] \<and>
    Stat env path = Inr st \<and> \<not> IsDir st"
  then show "fst (SetupTmpFiles env cfg w) \<noteq> None"
    using SetupTmpFiles_file_fails[of path short_name descriptive_name cfg env st w] by simp
next
  assume a: "(path, short_name, descriptive_name) \<in> set (roles cfg) \<and> path \<noteq> [] \<and>
    Stat env path = Inr st \<and> \<not> IsDir st"
    and ld: "LoadConfigAsMap_err env = None \<and> ConfigFromObject_result env = Inr cfg"
  have bad: "fst (SetupTmpFiles env cfg w) \<noteq> None"
    using a SetupTmpFiles_file_fails[of path short_name descriptive_name cfg env st w] by simp
  from staging_failure_runs_nothing[OF _ _ bad, of profileName] ld
  show "fst (RunProfile env profileName w) \<noteq> None"
    and "PhaseRun \<notin> set (phases (events_since w (snd (RunProfile env profileName w))))"
    and "run_ids (events_since w (snd (RunProfile env profileName w))) = []"
    by simp_all
qed

theorem absent_placeholder_file_fails_witness:
  "(''packs/RP'', ''RP'', ''resource folder'') \<in> set (roles (example_config example_filters)) \<and>
   Stat (example_env rp_missing example_filters) ''packs/RP'' = Inl ErrNotExist \<and>
   IsNotExist ErrNotExist \<and>
   fst (SetupTmpFiles (example_env rp_missing example_filters) (example_config example_filters)
          example_world) = None \<and>
   workspace (snd (SetupTmpFiles (example_env rp_missing example_filters)
          (example_config example_filters) example_world)) ''.regolith/tmp/RP'' = Some EmptyDir \<and>
   Log LWarn ''%s %q does not exist'' [AStr ''resource folder'', AStr ''packs/RP'']
     \<in> set (events_since example_world (snd (SetupTmpFiles (example_env rp_missing example_filters)
          (example_config example_filters) example_world))) \<and>
   (''packs/BP'', ''BP'', ''behavior folder'') \<in> set (roles (example_config example_filters)) \<and>
   Stat (example_env bp_is_file example_filters) ''packs/BP'' = Inr \<lparr>IsDir = False\<rparr> \<and>
   fst (SetupTmpFiles (example_env bp_is_file example_filters) (example_config example_filters)
          example_world) \<noteq> None \<and>
   fst (RunProfile (example_env bp_is_file example_filters) ''default'' example_world) \<noteq> None \<and>
   run_ids (events_since example_world
     (snd (RunProfile (example_env bp_is_file example_filters) ''default'' example_world))) = []"
proof -
  let ?cfg = "example_config example_filters"
  let ?e1 = "example_env rp_missing example_filters"
  let ?e2 = "example_env bp_is_file example_filters"
  have ev: "fst (SetupTmpFiles ?e1 ?cfg example_world) = None"
    by (simp add: example_defs run_defs)
  then have ok: "SetupTmpFiles ?e1 ?cfg example_world = (None, snd (SetupTmpFiles ?e1 ?cfg example_world))"
    by (metis prod.collapse)
  show ?thesis
    using absent_placeholder_file_fails[of "''packs/RP''" ?e1 ErrNotExist "''RP''" example_world
        "''resource folder''" ?cfg "snd (SetupTmpFiles ?e1 ?cfg example_world)"]
      absent_placeholder_file_fails[of "''packs/BP''" ?e2 _ "''BP''" example_world
        "''behavior folder''" ?cfg _ "\<lparr>IsDir = False\<rparr>" "''default''"]
      ev ok
    by (simp add: roles_def example_config_def example_env_def rp_missing_def bp_is_file_def
          IsNotExist_def tmp_path_def)
qed

text \<open>
  Claim C10.  If \<^verbatim>\<open>os.Stat\<close> on a configured (non-empty) source path fails with an error
  other than not-exist, the closure returns \<^verbatim>\<open>nil\<close> having done nothing but the
  \<^verbatim>\<open>Stat\<close>: \<^verbatim>\<open>SetupTmpFiles\<close> succeeds exactly when its other steps succeed, and when it
  succeeds the subdirectory of that role is missing from the workspace.
\<close>

theorem stat_error_is_silent:
  "(path \<noteq> [] \<and> Stat env path = Inl err \<and> \<not> IsNotExist err \<longrightarrow>
      setup_tmp_directory env path short_name descriptive_name w = (None, emit (SysStat path) w)) \<and>
   ((path, short_name, descriptive_name) \<in> set (roles cfg) \<and> path \<noteq> [] \<and>
    Stat env path = Inl err \<and> \<not> IsNotExist err \<longrightarrow>
      (fst (SetupTmpFiles env cfg w) = None \<longleftrightarrow>
         RemoveAll_err env ''.regolith/tmp'' = None \<and> MkdirAll_err env ''.regolith/tmp'' = None \<and>
         list_all (\<lambda>(p, s, d). fst (setup_tmp_directory env p s d w) = None)
           (filter (\<lambda>r. r \<noteq> (path, short_name, descriptive_name)) (roles cfg))) \<and>
      (SetupTmpFiles env cfg w = (None, w') \<longrightarrow> workspace w' (tmp_path short_name) = None))"
proof (intro conjI impI)
  assume "path \<noteq> [] \<and> Stat env path = Inl err \<and> \<not> IsNotExist err"
  then show "setup_tmp_directory env path short_name descriptive_name w = (None, emit (SysStat path) w)"
    by (simp add: setup_other_error)
next
  assume a: "(path, short_name, descriptive_name) \<in> set (roles cfg) \<and> path \<noteq> [] \<and>
    Stat env path = Inl err \<and> \<not> IsNotExist err"
  then have here: "(\<lambda>(p, s, d). fst (setup_tmp_directory env p s d w) = None)
      (path, short_name, descriptive_name)"
    by (simp add: setup_other_error)
  show "fst (SetupTmpFiles env cfg w) = None \<longleftrightarrow>
         RemoveAll_err env ''.regolith/tmp'' = None \<and> MkdirAll_err env ''.regolith/tmp'' = None \<and>
         list_all (\<lambda>(p, s, d). fst (setup_tmp_directory env p s d w) = None)
           (filter (\<lambda>r. r \<noteq> (path, short_name, descriptive_name)) (roles cfg))"
    unfolding list_all_filter_neq[of "\<lambda>(p, s, d). fst (setup_tmp_directory env p s d w) = None", OF here]
    by (rule SetupTmpFiles_ok_iff)
next
  assume a: "(path, short_name, descriptive_name) \<in> set (roles cfg) \<and> path \<noteq> [] \<and>
    Stat env path = Inl err \<and> \<not> IsNotExist err"
    and ok: "SetupTmpFiles env cfg w = (None, w')"
  from a have role: "(path, short_name, descriptive_name) \<in> set (roles cfg)" by simp
  from SetupTmpFiles_role[OF ok role] obtain wa wb where
    g: "workspace wa (tmp_path short_name) = None"
    and s: "setup_tmp_directory env path short_name descriptive_name wa = (None, wb)"
    and e: "workspace w' (tmp_path short_name) = workspace wb (tmp_path short_name)"
    by blast
  from a s have "wb = emit (SysStat path) wa"
    by (simp add: setup_other_error)
  with g e show "workspace w' (tmp_path short_name) = None"
    by (simp add: emit_def)
qed

theorem stat_error_is_silent_witness:
  "(''packs/RP'', ''RP'', ''resource folder'') \<in> set (roles (example_config [])) \<and>
   Stat (example_env rp_denied []) ''packs/RP'' = Inl ErrPermission \<and>
   \<not> IsNotExist ErrPermission \<and>
   fst (SetupTmpFiles (example_env rp_denied []) (example_config []) example_world) = None \<and>
   workspace (snd (SetupTmpFiles (example_env rp_denied []) (example_config []) example_world))
     ''.regolith/tmp/RP'' = None \<and>
   workspace (snd (SetupTmpFiles (example_env rp_denied []) (example_config []) example_world))
     ''.regolith/tmp/BP'' = Some (CopyOf ''packs/BP'')"
proof -
  let ?env = "example_env rp_denied []"
  let ?cfg = "example_config []"
  have ev: "fst (SetupTmpFiles ?env ?cfg example_world) = None"
    by (simp add: example_defs run_defs)
  then have ok: "SetupTmpFiles ?env ?cfg example_world =
      (None, snd (SetupTmpFiles ?env ?cfg example_world))"
    by (metis prod.collapse)
  have bp: "workspace (snd (SetupTmpFiles ?env ?cfg example_world)) ''.regolith/tmp/BP''
      = Some (CopyOf ''packs/BP'')"
    by (simp add: example_defs run_defs)
  show ?thesis
    using stat_error_is_silent[of "''packs/RP''" ?env ErrPermission "''RP''" "''resource folder''"
        example_world ?cfg "snd (SetupTmpFiles ?env ?cfg example_world)"] ev ok bp
    by (simp add: roles_def example_config_def example_env_def rp_denied_def IsNotExist_def tmp_path_def)
qed

section \<open>The sub-filter claim\<close>



section \<open>The command claims\<close>

text \<open>
  Claim C5.  An \<^verbatim>\<open>Install\<close> without the force flag, one of whose requested filter names
  already has an entry in the filter definitions of the configuration file, returns an
  error, leaves the configuration file as it was, and fetches, installs and writes
  nothing.  When the command gets as far as the check (the configuration loads and has
  a data path, the cache folder is found and the session lock is acquired), the error
  is the "already on the filter definitions list [...] please add --force" error for
  the first requested filter that is already defined, and all the command did was to
  take and release the lock.
\<close>

theorem Install_already_installed:
  assumes "\<not> force" and "parseInstallFilterArgs env filters = Inr parsedArgs"
      and "FilterDefinitionsProperty (config_json s) = Some filterDefinitions"
      and "parsedArg \<in> set parsedArgs" and "filterDefinitions (name parsedArg) \<noteq> None"
  shows "(\<exists>err. outcome (Install env filters force debug s) = Returned (Some err)) \<and>
         config_json (Install env filters force debug s) = config_json s \<and>
         list_all (\<lambda>e. \<not> installing_event e)
           (cmd_events_since s (Install env filters force debug s)) \<and>
         (LoadConfigAsMap_error env = None \<and> DataPathProperty (config_json s) \<noteq> None \<and>
          GetDotRegolith env = Inr dotRegolithPath \<and> aquireSessionLock env dotRegolithPath = None \<longrightarrow>
            (\<exists>first. List.find (\<lambda>p. filterDefinitions (name p) \<noteq> None) parsedArgs = Some first \<and>
               outcome (Install env filters force debug s)
                 = Returned (Some (already_installed (name first)))) \<and>
            cmd_events_since s (Install env filters force debug s) =
              start_events env debug ''Installing filters...'' @
              [CallAquireSessionLock dotRegolithPath, CallUnlockSession])"
proof -
  from find_installed_Some[of parsedArg parsedArgs filterDefinitions, OF assms(4,5)] obtain first where
    first: "List.find (\<lambda>p. filterDefinitions (name p) \<noteq> None) parsedArgs = Some first" by blast
  then have fi: "find_installed filterDefinitions parsedArgs = Some (name first)"
    by (simp add: find_installed_find)
  note early = Install_refused_early[OF assms(1,2,3) fi, of debug]
  have late: "(\<exists>first. List.find (\<lambda>p. filterDefinitions (name p) \<noteq> None) parsedArgs = Some first \<and>
               outcome (Install env filters force debug s)
                 = Returned (Some (already_installed (name first)))) \<and>
            cmd_events_since s (Install env filters force debug s) =
              start_events env debug ''Installing filters...'' @
              [CallAquireSessionLock dotRegolithPath, CallUnlockSession]"
    if h: "LoadConfigAsMap_error env = None \<and> DataPathProperty (config_json s) \<noteq> None \<and>
          GetDotRegolith env = Inr dotRegolithPath \<and> aquireSessionLock env dotRegolithPath = None"
  proof -
    from h obtain dataPath where dp: "DataPathProperty (config_json s) = Some dataPath" by auto
    from h have h1: "LoadConfigAsMap_error env = None" and h3: "GetDotRegolith env = Inr dotRegolithPath"
      and h4: "aquireSessionLock env dotRegolithPath = None" by simp_all
    show ?thesis
      unfolding Install_reaches_lock[OF assms(2) h1 dp assms(3) h3 h4]
        Install_locked_refused[OF assms(1) fi]
      using first
      by (simp add: cmd_events_since_def record_event_def start_logging_trace)
  qed
  from early late show ?thesis by blast
qed

theorem Install_already_installed_witness:
  "outcome (Install
      (example_cmd_env [\<lparr>url = ''github.com/Bedrock-OSS/regolith-filters'', name = ''name-ninja'',
                          version = ''latest''\<rparr>])
      [''github.com/Bedrock-OSS/regolith-filters/name-ninja==latest''] False False example_cmd_state)
     = Returned (Some (already_installed ''name-ninja'')) \<and>
   config_json (Install
      (example_cmd_env [\<lparr>url = ''github.com/Bedrock-OSS/regolith-filters'', name = ''name-ninja'',
                          version = ''latest''\<rparr>])
      [''github.com/Bedrock-OSS/regolith-filters/name-ninja==latest''] False False example_cmd_state)
     = example_config_map \<and>
   cmd_events_since example_cmd_state (Install
      (example_cmd_env [\<lparr>url = ''github.com/Bedrock-OSS/regolith-filters'', name = ''name-ninja'',
                          version = ''latest''\<rparr>])
      [''github.com/Bedrock-OSS/regolith-filters/name-ninja==latest''] False False example_cmd_state)
     = [InitLogging False, CmdLog LInfo ''Installing filters...'' [],
        CallAquireSessionLock ''.regolith'', CallUnlockSession]"
  using Install_already_installed[where force = False
      and env = "example_cmd_env [\<lparr>url = ''github.com/Bedrock-OSS/regolith-filters'',
                          name = ''name-ninja'', version = ''latest''\<rparr>]"
      and filters = "[''github.com/Bedrock-OSS/regolith-filters/name-ninja==latest'']"
      and parsedArgs = "[\<lparr>url = ''github.com/Bedrock-OSS/regolith-filters'', name = ''name-ninja'',
                          version = ''latest''\<rparr>]"
      and s = example_cmd_state
      and filterDefinitions =
        "[''name-ninja'' \<mapsto> ExistingEntry (JObject [(''version'', JString ''1.0.0'')])]"
      and parsedArg = "\<lparr>url = ''github.com/Bedrock-OSS/regolith-filters'', name = ''name-ninja'',
                          version = ''latest''\<rparr>"
      and dotRegolithPath = "''.regolith''" and debug = False]
  by (simp add: example_cmd_env_def example_cmd_state_def example_config_map_def start_events_def)

text \<open>
  Claim C8.  After an \<^verbatim>\<open>Install\<close> that succeeded (the requested names being distinct),
  the configuration file holds, for every requested filter, the definition that
  \<^verbatim>\<open>FilterDefinitionFromTheInternet\<close> returned for it, with its version replaced by the
  literal specifier when that is \<open>HEAD\<close> or \<open>latest\<close>, and untouched otherwise.  With the
  resolution modelled from the spec (an explicit version resolves to itself), every
  version specifier that was given is persisted verbatim.
\<close>

theorem Install_persists_version:
  assumes "parseInstallFilterArgs env filters = Inr parsedArgs"
      and "distinct (map name parsedArgs)"
      and "outcome (Install env filters force debug s) = Returned None"
      and "parsedArg \<in> set parsedArgs"
  shows "\<exists>defs d.
           FilterDefinitionsProperty (config_json (Install env filters force debug s)) = Some defs \<and>
           FilterDefinitionFromTheInternet env (url parsedArg) (name parsedArg) (version parsedArg)
             = Inr d \<and>
           defs (name parsedArg) = Some (InstalledEntry
             (if version parsedArg = ''HEAD'' \<or> version parsedArg = ''latest''
              then d\<lparr>Version := version parsedArg\<rparr> else d)) \<and>
           (version parsedArg = ''HEAD'' \<or> version parsedArg = ''latest'' \<longrightarrow>
              defs (name parsedArg)
                = Some (InstalledEntry \<lparr>Url = Url d, Version = version parsedArg\<rparr>)) \<and>
           (FilterDefinitionFromTheInternet env = resolve_from_spec remote \<and>
            version parsedArg \<noteq> [] \<longrightarrow>
              defs (name parsedArg)
                = Some (InstalledEntry \<lparr>Url = url parsedArg, Version = version parsedArg\<rparr>))"
proof -
  from Install_success[OF assms(1,3)] obtain defs0 m s0 s1 where
    dl: "download_definitions env parsedArgs Map.empty s0 = (Inr m, s1)"
    and cj: "config_json (Install env filters force debug s)
             = (config_json s)\<lparr>FilterDefinitionsProperty := Some (defs0 ++ m)\<rparr>"
    by blast
  from download_entry[OF dl assms(2,4)] obtain d where
    d: "FilterDefinitionFromTheInternet env (url parsedArg) (name parsedArg) (version parsedArg) = Inr d"
    and e: "m (name parsedArg) = Some (InstalledEntry
         (if version parsedArg = ''HEAD'' \<or> version parsedArg = ''latest''
          then d\<lparr>Version := version parsedArg\<rparr> else d))"
    by blast
  obtain u v where dd: "d = \<lparr>Url = u, Version = v\<rparr>" by (cases d)
  have spec: "u = url parsedArg \<and>
      (version parsedArg \<noteq> ''HEAD'' \<and> version parsedArg \<noteq> ''latest'' \<longrightarrow> v = version parsedArg)"
    if "FilterDefinitionFromTheInternet env = resolve_from_spec remote" "version parsedArg \<noteq> []"
    using d dd that by (auto simp: resolve_from_spec_def split: option.splits if_splits)
  show ?thesis
    apply (rule exI[of _ "defs0 ++ m"], rule exI[of _ d])
    using cj d e spec dd by (auto simp: map_add_def)
qed

theorem Install_persists_version_witness:
  "outcome (Install (example_cmd_env example_args) [] False False example_cmd_state) = Returned None \<and>
   (\<exists>defs. FilterDefinitionsProperty
        (config_json (Install (example_cmd_env example_args) [] False False example_cmd_state))
        = Some defs \<and>
      defs ''texture_list'' = Some (InstalledEntry
        \<lparr>Url = ''github.com/Bedrock-OSS/regolith-filters'', Version = ''HEAD''\<rparr>) \<and>
      defs ''bump_manifest'' = Some (InstalledEntry
        \<lparr>Url = ''github.com/Bedrock-OSS/regolith-filters'', Version = ''1.2.0''\<rparr>))"
proof -
  let ?env = "example_cmd_env example_args"
  let ?run = "Install ?env [] False False example_cmd_state"
  have p: "parseInstallFilterArgs ?env [] = Inr example_args"
    by (simp add: example_cmd_env_def)
  have dist: "distinct (map name example_args)"
    by (simp add: example_args_def)
  have ok: "outcome ?run = Returned None"
    by (simp add: install_eval example_cmd_env_def example_args_def example_cmd_state_def
          example_config_map_def example_remote_def)
  have r: "FilterDefinitionFromTheInternet ?env = resolve_from_spec example_remote"
    by (simp add: example_cmd_env_def)
  have a1: "\<lparr>url = ''github.com/Bedrock-OSS/regolith-filters'', name = ''texture_list'',
       version = ''HEAD''\<rparr> \<in> set example_args"
    and a2: "\<lparr>url = ''github.com/Bedrock-OSS/regolith-filters'', name = ''bump_manifest'',
       version = ''1.2.0''\<rparr> \<in> set example_args"
    by (simp_all add: example_args_def)
  from Install_persists_version[OF p dist ok a1, of example_remote] r
  obtain defs where
    d1: "FilterDefinitionsProperty (config_json ?run) = Some defs"
    and e1: "defs ''texture_list'' = Some (InstalledEntry
        \<lparr>Url = ''github.com/Bedrock-OSS/regolith-filters'', Version = ''HEAD''\<rparr>)"
    by auto
  from Install_persists_version[OF p dist ok a2, of example_remote] r d1
  have e2: "defs ''bump_manifest'' = Some (InstalledEntry
        \<lparr>Url = ''github.com/Bedrock-OSS/regolith-filters'', Version = ''1.2.0''\<rparr>)"
    by auto
  from ok d1 e1 e2 show ?thesis by blast
qed

text \<open>
  Claim C9.  Once \<^verbatim>\<open>runOrWatch\<close> has entered the watch loop it never returns: a run of it
  is still watching or was ended by a termination signal.  As long as the waits end with
  file changes, every iteration takes place whatever \<^verbatim>\<open>RunProfile\<close> returned: the
  pipeline is run, the error (on failure) or the success message is logged, the loop
  waits in \<^verbatim>\<open>AwaitInterruption\<close>, and only then restarts.  A termination signal ends the
  run in the wait of that iteration.
\<close>

theorem watch_survives_failures:
  assumes "LoadConfigAsMap_error env = None"
      and "ConfigFromObject env (Some (config_json s)) = Inr config"
      and "Profiles config (default_profile profileName) = Some profile"
      and "GetDotRegolith env = Inr dotRegolithPath"
      and "CreateDirectoryIfNotExists env dotRegolithPath = None"
      and "aquireSessionLock env dotRegolithPath = None"
      and "CheckProfileImpl_result env profile (default_profile profileName) = None"
  shows "(outcome (runOrWatch env fuel profileName debug True s) = StillWatching \<or>
          outcome (runOrWatch env fuel profileName debug True s) = ProcessExited) \<and>
         ((\<forall>j<fuel. AwaitInterruption_result env j = FileChange) \<longrightarrow>
            outcome (runOrWatch env fuel profileName debug True s) = StillWatching \<and>
            cmd_events_since s (runOrWatch env fuel profileName debug True s) =
              watch_prefix debug dotRegolithPath (default_profile profileName) @
              concat (map (\<lambda>j. iteration_events env (default_profile profileName) j @ restart_events)
                        [0..<fuel])) \<and>
         (m < fuel \<and> AwaitInterruption_result env m = TerminationSignal \<and>
          (\<forall>j<m. AwaitInterruption_result env j = FileChange) \<longrightarrow>
            outcome (runOrWatch env fuel profileName debug True s) = ProcessExited \<and>
            cmd_events_since s (runOrWatch env fuel profileName debug True s) =
              watch_prefix debug dotRegolithPath (default_profile profileName) @
              concat (map (\<lambda>j. iteration_events env (default_profile profileName) j @ restart_events)
                        [0..<m]) @
              iteration_events env (default_profile profileName) m)"
proof -
  let ?pn = "default_profile profileName"
  let ?s0 = "s\<lparr>sessionLockErr := None,
             cmd_trace := cmd_trace s @ watch_prefix debug dotRegolithPath ?pn\<rparr>"
  let ?w = "watch_loop env ?pn fuel 0 ?s0"
  note nr = watch_loop_never_returns[of env ?pn fuel 0 ?s0]
  have eq: "runOrWatch env fuel profileName debug True s = ?w"
    unfolding runOrWatch_reaches_loop[OF assms]
    by (rule deferred_unlock_not_returned[OF nr])
  show ?thesis
  proof (intro conjI impI)
    show "outcome (runOrWatch env fuel profileName debug True s) = StillWatching \<or>
          outcome (runOrWatch env fuel profileName debug True s) = ProcessExited"
      unfolding eq by (rule nr)
  next
    assume "\<forall>j<fuel. AwaitInterruption_result env j = FileChange"
    then have "\<forall>j<fuel. AwaitInterruption_result env (0 + j) = FileChange" by simp
    note w = watch_loop_changes[OF this, of ?pn ?s0]
    show "outcome (runOrWatch env fuel profileName debug True s) = StillWatching"
      unfolding eq w by simp
    show "cmd_events_since s (runOrWatch env fuel profileName debug True s) =
              watch_prefix debug dotRegolithPath ?pn @
              concat (map (\<lambda>j. iteration_events env ?pn j @ restart_events) [0..<fuel])"
      unfolding eq w by (simp add: cmd_events_since_def)
  next
    assume a: "m < fuel \<and> AwaitInterruption_result env m = TerminationSignal \<and>
          (\<forall>j<m. AwaitInterruption_result env j = FileChange)"
    then have "m < fuel" "AwaitInterruption_result env (0 + m) = TerminationSignal"
      "\<forall>j<m. AwaitInterruption_result env (0 + j) = FileChange" by simp_all
    note w = watch_loop_signal[OF this, of ?pn ?s0]
    show "outcome (runOrWatch env fuel profileName debug True s) = ProcessExited"
      unfolding eq w by simp
    show "cmd_events_since s (runOrWatch env fuel profileName debug True s) =
              watch_prefix debug dotRegolithPath ?pn @
              concat (map (\<lambda>j. iteration_events env ?pn j @ restart_events) [0..<m]) @
              iteration_events env ?pn m"
      unfolding eq w by (simp add: cmd_events_since_def)
  qed
qed

theorem watch_survives_failures_witness:
  "RunProfile_result (example_cmd_env example_args) 1 = Some (ExternalError ''a filter failed'') \<and>
   outcome (runOrWatch (example_cmd_env example_args) 3 ''default'' False True example_cmd_state)
     = StillWatching \<and>
   cmd_events_since example_cmd_state
     (runOrWatch (example_cmd_env example_args) 3 ''default'' False True example_cmd_state) =
     [InitLogging False, CallCreateDirectoryIfNotExists ''.regolith'',
      CallAquireSessionLock ''.regolith'', CallCheckProfileImpl ''default'',
      CallStartWatchingSourceFiles,
      CallRunProfile, CmdLog LInfo ''Successfully ran the %q profile.'' [CStr ''default''],
      CmdLog LInfo ''Press Ctrl+C to stop watching.'' [], CallAwaitInterruption,
      CmdLog LWarn ''Restarting...'' [],
      CallRunProfile,
      CmdLog LError ''Failed to run profile %q: %s''
        [CStr ''default'', CErr (ExternalError ''a filter failed'')],
      CmdLog LInfo ''Press Ctrl+C to stop watching.'' [], CallAwaitInterruption,
      CmdLog LWarn ''Restarting...'' [],
      CallRunProfile, CmdLog LInfo ''Successfully ran the %q profile.'' [CStr ''default''],
      CmdLog LInfo ''Press Ctrl+C to stop watching.'' [], CallAwaitInterruption,
      CmdLog LWarn ''Restarting...'' []]"
proof -
  have up: "[0..<3] = [0, 1, 2::nat]" by (simp add: upt_rec)
  show ?thesis
    using watch_survives_failures[where env = "example_cmd_env example_args"
        and s = example_cmd_state and profileName = "''default''" and debug = False
        and dotRegolithPath = "''.regolith''" and fuel = 3
        and config = "(example_config example_filters)
           \<lparr>FilterDefinitions :=
              [''name-ninja'' \<mapsto> ExistingEntry (JObject [(''version'', JString ''1.0.0'')])]\<rparr>"
        and profile = "\<lparr>Filters = example_filters,
                    ExportTarget = \<lparr>Target = ''development'', ReadOnly = False\<rparr>\<rparr>"]
    by (simp add: example_cmd_env_def example_cmd_state_def example_config_def default_profile_def
          watch_prefix_def iteration_events_def restart_events_def up)
qed

text \<open>
  Claim C6, evaluated where the code departs from it.  In a project where every step of
  every command succeeds and only the release of the session lock fails, each of the
  six commands returns \<^verbatim>\<open>nil\<close>: the \<^verbatim>\<open>return sessionLockErr\<close> statement reads the
  variable before the deferred closure assigns the release error to it.
\<close>

theorem release_error_is_dropped:
  "unlockSession (example_cmd_env example_args) = Some (ExternalError ''cannot remove the lock file'') \<and>
   list_all (\<lambda>st. outcome st = Returned None \<and>
                  sessionLockErr st = Some (ExternalError ''cannot remove the lock file'') \<and>
                  last (cmd_trace st) = CallUnlockSession)
     [Install (example_cmd_env example_args) [] False False example_cmd_state,
      InstallAll (example_cmd_env example_args) False False example_cmd_state,
      Update (example_cmd_env example_args) [''name-ninja''] False example_cmd_state,
      UpdateAll (example_cmd_env example_args) False example_cmd_state,
      runOrWatch (example_cmd_env example_args) 0 ''default'' False False example_cmd_state,
      Tool (example_cmd_env example_args) ''name-ninja'' [] False example_cmd_state]"
  by (simp add: command_defs example_cmd_defs)

text \<open>
  Claim C7, evaluated where the code departs from it.  \<^verbatim>\<open>RunProfile\<close>, called with a profile
  name that is not in the configuration, takes the zero value of the map lookup for the
  profile and goes through staging, export and cleanup; \<^verbatim>\<open>runOrWatch\<close>, on the same
  name, returns the "does not exist in the configuration" error before it does
  anything else.
\<close>

theorem RunProfile_accepts_unknown_profile:
  "Profiles (example_config example_filters) ''release'' = None \<and>
   fst (RunProfile (example_env all_dirs example_filters) ''release'' example_world) = None \<and>
   events_since example_world
     (snd (RunProfile (example_env all_dirs example_filters) ''release'' example_world)) =
     [Log LDebug ''Cleaning .regolith/tmp'' [], SysRemoveAll ''.regolith/tmp'',
      SysMkdirAll ''.regolith/tmp'', Log LDebug ''Copying project files to .regolith/tmp'' [],
      SysStat ''packs/RP'', SysCopy ''packs/RP'' ''.regolith/tmp/RP'',
      SysStat ''packs/BP'', SysCopy ''packs/BP'' ''.regolith/tmp/BP'',
      SysStat ''packs/data'', SysCopy ''packs/data'' ''.regolith/tmp/data'',
      Log LDebug ''Setup done in '' [ADuration],
      Log LInfo ''Moving files to target directory.'' [], CallExportProject,
      Log LDebug ''Done in '' [ADuration], SysRemoveAll ''.regolith/tmp/data''] \<and>
   outcome (runOrWatch (example_cmd_env example_args) 0 ''release'' False False example_cmd_state) =
     Returned (Some (WrappedErrorf ''Profile %q does not exist in the configuration.''
                       [AStr ''release''])) \<and>
   cmd_trace (runOrWatch (example_cmd_env example_args) 0 ''release'' False False example_cmd_state) =
     [InitLogging False]"
  by (simp add: run_defs example_defs events_since_def zero_Profile_def command_defs example_cmd_defs)


end
